theory Spec2Isabelle
  imports Complex_Main "HOL-Library.Sublist"
begin

section \<open>Values shared by both scripts\<close>

text \<open>
  The two scripts (\<^verbatim>\<open>python_pptx_demo.py\<close> and \<^verbatim>\<open>superstore_example.py\<close>) share their
  helper functions word for word; a helper is modelled once and the places where the
  scripts differ are modelled separately.

  Exceptions are values: a function that can raise returns \<open>py_error + 'a\<close>, with
  \<open>Inl\<close> the exception.
\<close>

datatype py_error = ValueError | KeyError | IndexError | LibraryError

text \<open>\<^verbatim>\<open>RGBColor(r, g, b)\<close>: the three channels.\<close>

type_synonym RGBColor = "nat \<times> nat \<times> nat"

text \<open>
  A cell of a numeric dataframe column is a 64-bit float (IEEE 754 binary64): a finite
  value, which is a real number, or one of \<open>+inf\<close>, \<open>-inf\<close>, \<open>nan\<close>. Signed zeros are not
  modelled (a zero is the real number 0, and dividing by it gives the results of dividing
  by \<open>+0\<close>).
\<close>

datatype fval = Finite real | PosInf | NegInf | NaN

text \<open>
  Every arithmetic operation of numpy on finite floats gives the exact result rounded to
  the nearest binary64 value, ties to the value with an even significand. \<open>float64\<close> is
  this rounding: a value other than zero is scaled by the power \<open>e\<close> of two that leaves 53
  significant bits (\<open>binade x\<close> is the integer part of the base-two logarithm of \<open>\<bar>x\<bar>\<close>,
  found from the bit length of the integer part of \<open>\<bar>x\<bar>\<close> or of \<open>1 / \<bar>x\<bar>\<close>; the exponent is not
  less than -1074, the exponent of the subnormal numbers), rounded to an integer, and
  scaled back; a result of magnitude \<open>2 ^ 1024\<close> or more is an overflow and gives infinity.
\<close>

fun bit_length :: "nat \<Rightarrow> nat" where
  "bit_length n = (if n = 0 then 0 else Suc (bit_length (n div 2)))"

declare bit_length.simps [simp del]

definition pow2 :: "int \<Rightarrow> real" where
  "pow2 e = (if e \<ge> 0 then 2 ^ nat e else 1 / 2 ^ nat (- e))"

definition binade :: "real \<Rightarrow> int" where
  "binade x =
     (if \<bar>x\<bar> \<ge> 1 then int (bit_length (nat \<lfloor>\<bar>x\<bar>\<rfloor>)) - 1
      else - int (bit_length (nat (\<lceil>1 / \<bar>x\<bar>\<rceil> - 1))))"

definition round_half_even :: "real \<Rightarrow> int" where
  "round_half_even x =
     (let f = \<lfloor>x\<rfloor>; d = x - of_int f
      in if d < 1 / 2 then f
         else if d > 1 / 2 then f + 1
         else if even f then f else f + 1)"

definition float64 :: "real \<Rightarrow> fval" where
  "float64 x =
     (if x = 0 then Finite 0
      else let e = max (binade x - 52) (- 1074);
               y = of_int (round_half_even (x / pow2 e)) * pow2 e
           in if y \<ge> pow2 1024 then PosInf
              else if y \<le> - pow2 1024 then NegInf
              else Finite y)"

text \<open>A real number that is a finite binary64 value: rounding leaves it as it is.\<close>

definition is_float64 :: "real \<Rightarrow> bool" where
  "is_float64 x = (float64 x = Finite x)"

text \<open>
  numpy's \<^verbatim>\<open>a - b\<close> on two finite floats, and \<^verbatim>\<open>a / b\<close> and \<^verbatim>\<open>a * c\<close> for a float \<open>a\<close>, a finite
  divisor \<open>b\<close> and a finite constant \<open>c\<close>. A finite value divided by zero is \<open>+inf\<close>, \<open>-inf\<close>
  or \<open>nan\<close> according to its sign (numpy warns and does not raise).
\<close>

definition np_sub :: "real \<Rightarrow> real \<Rightarrow> fval" where
  "np_sub a b = float64 (a - b)"

definition np_div :: "fval \<Rightarrow> real \<Rightarrow> fval" where
  "np_div a b =
     (case a of
        Finite x \<Rightarrow>
          (if b \<noteq> 0 then float64 (x / b)
           else if x > 0 then PosInf
           else if x < 0 then NegInf
           else NaN)
      | PosInf \<Rightarrow> (if b < 0 then NegInf else PosInf)
      | NegInf \<Rightarrow> (if b < 0 then PosInf else NegInf)
      | NaN \<Rightarrow> NaN)"

definition np_mul :: "fval \<Rightarrow> real \<Rightarrow> fval" where
  "np_mul v c =
     (case v of
        Finite x \<Rightarrow> float64 (x * c)
      | PosInf \<Rightarrow> (if c > 0 then PosInf else if c < 0 then NegInf else NaN)
      | NegInf \<Rightarrow> (if c > 0 then NegInf else if c < 0 then PosInf else NaN)
      | NaN \<Rightarrow> NaN)"

text \<open>The comparisons \<^verbatim>\<open>a > b\<close> and \<^verbatim>\<open>a < b\<close> of two floats (false when either side is nan).\<close>

definition float_gt :: "fval \<Rightarrow> fval \<Rightarrow> bool" where
  "float_gt a b =
     (case (a, b) of
        (NaN, _) \<Rightarrow> False
      | (_, NaN) \<Rightarrow> False
      | (Finite x, Finite y) \<Rightarrow> x > y
      | (PosInf, PosInf) \<Rightarrow> False
      | (PosInf, _) \<Rightarrow> True
      | (_, NegInf) \<Rightarrow> (a \<noteq> NegInf)
      | (_, _) \<Rightarrow> False)"

definition float_lt :: "fval \<Rightarrow> fval \<Rightarrow> bool" where
  "float_lt a b = float_gt b a"

text \<open>\<^verbatim>\<open>df.fillna(0)\<close> and \<^verbatim>\<open>df.replace([np.inf], 100)\<close> on one cell.\<close>

definition fillna0 :: "fval \<Rightarrow> fval" where
  "fillna0 v = (if v = NaN then Finite 0 else v)"

definition replace_inf_100 :: "fval \<Rightarrow> fval" where
  "replace_inf_100 v = (if v = PosInf then Finite 100 else v)"

section \<open>Formatting helpers\<close>

subsection \<open>\<^verbatim>\<open>_horizontal_alignment\<close> and \<^verbatim>\<open>_vertical_alignment\<close>\<close>

text \<open>
  The members of the library's two enumerations. The helpers assign only three of each;
  a shape may hold any member (or nothing, \<open>None\<close>) before the call.
\<close>

datatype PP_ALIGN =
  LEFT | CENTER | RIGHT | JUSTIFY | DISTRIBUTE | JUSTIFY_LOW | THAI_DISTRIBUTE | MIXED_ALIGN

datatype MSO_VERTICAL_ANCHOR = TOP | MIDDLE | BOTTOM | MIXED_ANCHOR

text \<open>
  The helpers take any object with the attribute they assign (a paragraph, a text frame,
  a table cell): an extensible record with the two attributes, whatever else it holds.
\<close>

record text_shape =
  alignment :: "PP_ALIGN option"
  vertical_anchor :: "MSO_VERTICAL_ANCHOR option"

text \<open>
  \<^verbatim>\<open>match horizontal_alignment: case 'left': ... case 'center': ... case 'right': ...\<close>
  with no default case: a string that matches no case assigns nothing. The leading
  underscore of the source names is dropped.
\<close>

definition horizontal_alignment :: "'a text_shape_scheme \<Rightarrow> string \<Rightarrow> 'a text_shape_scheme" where
  "horizontal_alignment shape s =
     (if s = ''left'' then shape\<lparr>alignment := Some LEFT\<rparr>
      else if s = ''center'' then shape\<lparr>alignment := Some CENTER\<rparr>
      else if s = ''right'' then shape\<lparr>alignment := Some RIGHT\<rparr>
      else shape)"

definition vertical_alignment :: "'a text_shape_scheme \<Rightarrow> string \<Rightarrow> 'a text_shape_scheme" where
  "vertical_alignment shape s =
     (if s = ''top'' then shape\<lparr>vertical_anchor := Some TOP\<rparr>
      else if s = ''middle'' then shape\<lparr>vertical_anchor := Some MIDDLE\<rparr>
      else if s = ''bottom'' then shape\<lparr>vertical_anchor := Some BOTTOM\<rparr>
      else shape)"

subsection \<open>\<^verbatim>\<open>sparkbar\<close>\<close>

text \<open>
  Python's \<^verbatim>\<open>max(data)\<close> and \<^verbatim>\<open>min(data)\<close>: the first element, replaced by each later
  element that compares greater (smaller); \<^verbatim>\<open>ValueError\<close> on an empty list.
\<close>

definition py_max :: "fval list \<Rightarrow> py_error + fval" where
  "py_max xs =
     (case xs of
        [] \<Rightarrow> Inl ValueError
      | x # rest \<Rightarrow> Inr (fold (\<lambda>y m. if float_gt y m then y else m) rest x))"

definition py_min :: "fval list \<Rightarrow> py_error + fval" where
  "py_min xs =
     (case xs of
        [] \<Rightarrow> Inl ValueError
      | x # rest \<Rightarrow> Inr (fold (\<lambda>y m. if float_lt y m then y else m) rest x))"

text \<open>
  The chart \<^verbatim>\<open>sparkbar\<close> builds: one series, one point per value. \<open>categories\<close> holds the
  indices whose decimal strings are the category labels; \<open>point_fill\<close> is the solid
  fore colour set on each point, \<open>invert_if_negative\<close> the value of the element appended
  to each point's format. The axis and layout stripping of \<^verbatim>\<open>_plot_area_only\<close> is
  recorded as one flag.
\<close>

record bar_chart =
  categories :: "nat list"
  series_values :: "fval list"
  maximum_scale :: fval
  minimum_scale :: fval
  plot_area_only :: bool
  gap_width :: nat
  invert_if_negative :: "nat list"
  point_fill :: "RGBColor list"

text \<open>The branch of the loop body that picks the colour of point \<open>i\<close>.\<close>

definition bar_color :: "fval \<Rightarrow> RGBColor" where
  "bar_color v =
     (if float_gt v (Finite 0) then (0, 176, 80)
      else if float_lt v (Finite 0) then (235, 70, 81)
      else (0, 0, 0))"

definition sparkbar :: "fval list \<Rightarrow> py_error + bar_chart" where
  "sparkbar data =
     (case py_max data of
        Inl e \<Rightarrow> Inl e
      | Inr mx \<Rightarrow>
          (case py_min data of
             Inl e \<Rightarrow> Inl e
           | Inr mn \<Rightarrow>
               Inr \<lparr>categories = [0..<length data],
                    series_values = data,
                    maximum_scale = mx,
                    minimum_scale = mn,
                    plot_area_only = True,
                    gap_width = 25,
                    invert_if_negative = map (\<lambda>_. 0) data,
                    point_fill = map bar_color data\<rparr>))"

subsection \<open>\<^verbatim>\<open>_cell_border\<close>\<close>

text \<open>
  \<^verbatim>\<open>_cell_border\<close> works on the \<^verbatim>\<open>a:tcPr\<close> element of a table cell, an lxml element whose
  children are the cell's fill and its border lines. An element is its tag in Clark
  notation (\<^verbatim>\<open>{namespace}local\<close>, what \<^verbatim>\<open>str(e.tag)\<close> gives), its attributes and its children.
\<close>

datatype xml = Elem (xml_tag: string) (attrib: "(string \<times> string) list") (children: "xml list")

definition drawingml_ns :: string where
  "drawingml_ns = ''http://schemas.openxmlformats.org/drawingml/2006/main''"

definition chart_ns :: string where
  "chart_ns = ''http://schemas.openxmlformats.org/drawingml/2006/chart''"

text \<open>
  \<^verbatim>\<open>SubElement\<close> (line 33) is \<^verbatim>\<open>OxmlElement(tagname)\<close>, given the keyword arguments as
  attributes and appended to the parent.
  \<^verbatim>\<open>OxmlElement\<close> resolves the prefixed tag with the library's \<^verbatim>\<open>qn\<close>: the tag is split at
  the colon into exactly a prefix and a local name (anything else is a \<^verbatim>\<open>ValueError\<close> of
  the unpacking) and the prefix is looked up in the namespace map (an unknown one is a
  \<^verbatim>\<open>KeyError\<close>). Of the map only the two prefixes the scripts use are kept.
\<close>

definition nsmap :: "string \<Rightarrow> string option" where
  "nsmap pfx =
     (if pfx = ''a'' then Some drawingml_ns
      else if pfx = ''c'' then Some chart_ns
      else None)"

fun split_on :: "char \<Rightarrow> string \<Rightarrow> string list" where
  "split_on c [] = [[]]"
| "split_on c (x # xs) =
     (if x = c then [] # split_on c xs
      else (case split_on c xs of
              w # ws \<Rightarrow> (x # w) # ws
            | [] \<Rightarrow> [[x]]))"

definition qn :: "string \<Rightarrow> py_error + string" where
  "qn nsptag =
     (case split_on CHR '':'' nsptag of
        [pfx, local_part] \<Rightarrow>
          (case nsmap pfx of
             None \<Rightarrow> Inl KeyError
           | Some uri \<Rightarrow> Inr (''{'' @ uri @ ''}'' @ local_part))
      | _ \<Rightarrow> Inl ValueError)"

definition a_tag :: "string \<Rightarrow> string" where
  "a_tag local_part = ''{'' @ drawingml_ns @ ''}'' @ local_part"

definition SubElement :: "xml list \<Rightarrow> string \<Rightarrow> (string \<times> string) list \<Rightarrow> py_error + xml list" where
  "SubElement parent tagname kwargs =
     (case qn tagname of
        Inl e \<Rightarrow> Inl e
      | Inr t \<Rightarrow> Inr (parent @ [Elem t kwargs []]))"

text \<open>
  The fill operations the function calls belong to the presentation library, not to this
  repository; they are written here after the library's documented behaviour, on the
  children of \<^verbatim>\<open>a:tcPr\<close>:
  \<^item> \<^verbatim>\<open>fill.type\<close> is read off the first fill child (\<^verbatim>\<open>a:noFill\<close>, \<^verbatim>\<open>a:solidFill\<close>, ...), and
    is \<^verbatim>\<open>None\<close> without one;
  \<^item> \<^verbatim>\<open>fill.background()\<close> and \<^verbatim>\<open>fill.solid()\<close> keep a fill child that already has the
    wanted kind, and otherwise remove every fill child and insert an empty \<^verbatim>\<open>a:noFill\<close> or
    \<^verbatim>\<open>a:solidFill\<close> before the first \<^verbatim>\<open>a:headers\<close> or \<^verbatim>\<open>a:extLst\<close> child, at the end if there
    is none;
  \<^item> \<^verbatim>\<open>fill.fore_color.rgb\<close> reads the \<^verbatim>\<open>val\<close> of the \<^verbatim>\<open>a:srgbClr\<close> child of the solid fill, and
    assigning it makes that child the solid fill's only colour.
\<close>

datatype MSO_FILL = BACKGROUND | GRADIENT | GROUP_FILL | PATTERNED | PICTURE | SOLID

definition fill_tags :: "(string \<times> MSO_FILL) list" where
  "fill_tags =
     [(a_tag ''noFill'', BACKGROUND), (a_tag ''solidFill'', SOLID), (a_tag ''gradFill'', GRADIENT),
      (a_tag ''blipFill'', PICTURE), (a_tag ''pattFill'', PATTERNED), (a_tag ''grpFill'', GROUP_FILL)]"

definition is_fill :: "xml \<Rightarrow> bool" where
  "is_fill e = (xml_tag e \<in> set (map fst fill_tags))"

definition fill_type :: "xml list \<Rightarrow> MSO_FILL option" where
  "fill_type elems =
     (case find is_fill elems of
        None \<Rightarrow> None
      | Some e \<Rightarrow> map_of fill_tags (xml_tag e))"

definition is_fill_successor :: "xml \<Rightarrow> bool" where
  "is_fill_successor e = (xml_tag e = a_tag ''headers'' \<or> xml_tag e = a_tag ''extLst'')"

definition change_fill :: "xml list \<Rightarrow> xml \<Rightarrow> xml list" where
  "change_fill elems new =
     (let kept = filter (\<lambda>e. \<not> is_fill e) elems
      in takeWhile (\<lambda>e. \<not> is_fill_successor e) kept @ [new]
           @ dropWhile (\<lambda>e. \<not> is_fill_successor e) kept)"

definition fill_background :: "xml list \<Rightarrow> xml list" where
  "fill_background elems =
     (if fill_type elems = Some BACKGROUND then elems
      else change_fill elems (Elem (a_tag ''noFill'') [] []))"

definition fill_solid :: "xml list \<Rightarrow> xml list" where
  "fill_solid elems =
     (if fill_type elems = Some SOLID then elems
      else change_fill elems (Elem (a_tag ''solidFill'') [] []))"

definition fore_color_rgb :: "xml list \<Rightarrow> py_error + string" where
  "fore_color_rgb elems =
     (case find is_fill elems of
        Some (Elem t _ (Elem ct cattrs _ # _)) \<Rightarrow>
          (if t = a_tag ''solidFill'' \<and> ct = a_tag ''srgbClr''
           then (case map_of cattrs ''val'' of Some v \<Rightarrow> Inr v | None \<Rightarrow> Inl LibraryError)
           else Inl LibraryError)
      | _ \<Rightarrow> Inl LibraryError)"

definition set_fore_color_rgb :: "xml list \<Rightarrow> string \<Rightarrow> xml list" where
  "set_fore_color_rgb elems rgb =
     map (\<lambda>e. if xml_tag e = a_tag ''solidFill''
                then Elem (xml_tag e) (attrib e) [Elem (a_tag ''srgbClr'') [(''val'', rgb)] []]
                else e) elems"

text \<open>
  A cell, as far as \<^verbatim>\<open>_cell_border\<close> can reach it: the attributes of \<^verbatim>\<open>a:tcPr\<close> (the margins and
  the anchor), its children, and the text body.
\<close>

record cell =
  tcPr_attrib :: "(string \<times> string) list"
  tcPr :: "xml list"
  txBody :: "xml list"

text \<open>
  One round of the loop over \<^verbatim>\<open>borders\<close> (lines 161 to 171): \<^verbatim>\<open>tag\<close> is the part of the entry
  after its last colon; every child of \<^verbatim>\<open>a:tcPr\<close> with \<^verbatim>\<open>tag in str(e.tag)\<close>, a substring test,
  is removed (\<^verbatim>\<open>getchildren()\<close> is a copy of the child list, so removing while iterating
  skips nothing); then the line element with its \<^verbatim>\<open>a:solidFill\<close> and \<^verbatim>\<open>a:prstDash\<close> children is
  appended.
\<close>

definition border_line :: "string \<Rightarrow> string \<Rightarrow> string \<Rightarrow> string \<Rightarrow> py_error + xml" where
  "border_line lines line_type border_color border_width =
     (case qn lines of
        Inl e \<Rightarrow> Inl e
      | Inr t \<Rightarrow>
          Inr (Elem t [(''w'', border_width), (''cap'', ''flat''), (''cmpd'', ''sng''), (''algn'', ''ctr'')]
                 [Elem (a_tag ''solidFill'') [] [Elem (a_tag ''srgbClr'') [(''val'', border_color)] []],
                  Elem (a_tag ''prstDash'') [(''val'', line_type)] []]))"

fun apply_borders :: "string list \<Rightarrow> string \<Rightarrow> string \<Rightarrow> string \<Rightarrow> xml list \<Rightarrow> py_error + xml list" where
  "apply_borders [] line_type border_color border_width elems = Inr elems"
| "apply_borders (lines # rest) line_type border_color border_width elems =
     (let tag = last (split_on CHR '':'' lines);
          cleaned = filter (\<lambda>e. \<not> sublist tag (xml_tag e)) elems
      in case border_line lines line_type border_color border_width of
           Inl e \<Rightarrow> Inl e
         | Inr line \<Rightarrow> apply_borders rest line_type border_color border_width (cleaned @ [line]))"

definition cell_border :: "'a cell_scheme \<Rightarrow> string list \<Rightarrow> string \<Rightarrow> string \<Rightarrow> string \<Rightarrow> py_error + 'a cell_scheme" where
  "cell_border cell borders line_type border_color border_width =
     (if fill_type (tcPr cell) = Some SOLID then
        (case fore_color_rgb (tcPr cell) of
           Inl e \<Rightarrow> Inl e
         | Inr fill_color \<Rightarrow>
             (case apply_borders borders line_type border_color border_width (fill_background (tcPr cell)) of
                Inl e \<Rightarrow> Inl e
              | Inr elems \<Rightarrow> Inr (cell\<lparr>tcPr := set_fore_color_rgb (fill_solid elems) fill_color\<rparr>)))
      else
        (case apply_borders borders line_type border_color border_width (tcPr cell) of
           Inl e \<Rightarrow> Inl e
         | Inr elems \<Rightarrow> Inr (cell\<lparr>tcPr := elems\<rparr>)))"

text \<open>
  Every call of \<^verbatim>\<open>_cell_border\<close> in the two scripts (all in the table helpers) passes
  \<^verbatim>\<open>['a:lnB']\<close> and a cell of a table that \<^verbatim>\<open>add_table\<close> has just created. The \<^verbatim>\<open>a:tcPr\<close> of such
  a cell has no children, or, once \<^verbatim>\<open>_shape_fill\<close> has been applied to it (\<^verbatim>\<open>fill.solid()\<close>, then
  \<^verbatim>\<open>fill.fore_color.rgb = RGBColor(...)\<close>), the one solid fill \<open>plain_fill\<close>. \<open>bottom_line\<close> is the
  line element the call appends for \<^verbatim>\<open>'a:lnB'\<close>.
\<close>

definition plain_fill :: "string \<Rightarrow> xml" where
  "plain_fill rgb = Elem (a_tag ''solidFill'') [] [Elem (a_tag ''srgbClr'') [(''val'', rgb)] []]"

definition bottom_line :: "string \<Rightarrow> string \<Rightarrow> string \<Rightarrow> xml" where
  "bottom_line line_type border_color border_width =
     Elem (a_tag ''lnB'')
       [(''w'', border_width), (''cap'', ''flat''), (''cmpd'', ''sng''), (''algn'', ''ctr'')]
       [Elem (a_tag ''solidFill'') [] [Elem (a_tag ''srgbClr'') [(''val'', border_color)] []],
        Elem (a_tag ''prstDash'') [(''val'', line_type)] []]"

text \<open>
  A cell with a solid fill of colour \<^verbatim>\<open>FFD1D1\<close> and a diagonal border (\<^verbatim>\<open>a:lnBlToTr\<close>, bottom
  left to top right).
\<close>

definition diagonal_cell :: cell where
  "diagonal_cell =
     \<lparr>tcPr_attrib = [(''marL'', ''0'')],
      tcPr = [Elem (a_tag ''lnBlToTr'') [(''w'', ''12700'')] [],
              Elem (a_tag ''solidFill'') [] [Elem (a_tag ''srgbClr'') [(''val'', ''FFD1D1'')] []]],
      txBody = []\<rparr>"

section \<open>Derived dataframes\<close>

text \<open>
  Both scripts derive their tables from a pivoted dataframe: one label column (\<open>Region\<close>
  in the demo script, the slide's pivot column in the superstore script) followed by one
  float column per period (year or calendar quarter), in the order of the pivot. The
  pivot itself is a call into the dataframe library and is the input here. A frame holds
  the label column and the numeric columns, each numeric column a name and its values by
  row; \<^verbatim>\<open>select_dtypes(include='number')\<close> selects exactly the numeric columns, and the
  column at position \<open>k > 0\<close> of \<^verbatim>\<open>df.columns\<close> is numeric column \<open>k - 1\<close>.
\<close>

record 'v frame =
  label_name :: string
  row_labels :: "string list"
  num_cols :: "(string \<times> 'v list) list"

text \<open>Reading a frame: the name of numeric column \<open>j\<close>, its value in row \<open>i\<close>, and
  whether that position exists.\<close>

definition col_name :: "'v frame \<Rightarrow> nat \<Rightarrow> string" where
  "col_name df j = fst (num_cols df ! j)"

definition cell_at :: "'v frame \<Rightarrow> nat \<Rightarrow> nat \<Rightarrow> 'v" where
  "cell_at df j i = snd (num_cols df ! j) ! i"

definition in_frame :: "'v frame \<Rightarrow> nat \<Rightarrow> nat \<Rightarrow> bool" where
  "in_frame df j i = (j < length (num_cols df) \<and> i < length (snd (num_cols df ! j)))"

text \<open>
  \<^verbatim>\<open>totals = df.sum(numeric_only=True); totals[label] = 'Total'; df.loc['Total'] = totals;
  df = df.reset_index(drop=True)\<close>: the sum of every numeric column, appended as a new last
  row labelled \<open>Total\<close>. The assignment aligns the totals with the columns by name; the
  column names of a pivot are distinct, so this is the alignment by position written here.
\<close>

definition totals :: "real frame \<Rightarrow> (string \<times> real) list" where
  "totals df = map (\<lambda>(n, vs). (n, sum_list vs)) (num_cols df)"

definition add_total_row :: "real frame \<Rightarrow> real frame" where
  "add_total_row df =
     df\<lparr>row_labels := row_labels df @ [''Total''],
        num_cols := map2 (\<lambda>(n, vs) (m, t). (n, vs @ [t])) (num_cols df) (totals df)\<rparr>"

text \<open>
  The growth loop, for a lag of \<open>k\<close> columns (\<open>k = 1\<close> in the demo script, \<open>k = 4\<close> in the
  superstore script):
  \<^verbatim>\<open>qoq = df.drop(df.columns[1:k+1], axis=1).copy()
  for col in df.select_dtypes(include='number').columns.to_list()[k:]:
      qoq[col] = ((df[col] - df[df.columns[df.columns.get_loc(col)-k]])
                  / df[df.columns[df.columns.get_loc(col)-k]]) * 100\<close>
  Every numeric column from the \<open>k\<close>-th on is paired with the column \<open>k\<close> positions before it.
  The value of a cell is the result of three float operations: the difference, the
  quotient, the product with 100.
\<close>

definition growth_value :: "real \<Rightarrow> real \<Rightarrow> fval" where
  "growth_value cur prior = np_mul (np_div (np_sub cur prior) prior) 100"

definition growth :: "nat \<Rightarrow> real frame \<Rightarrow> fval frame" where
  "growth k df =
     \<lparr>label_name = label_name df,
      row_labels = row_labels df,
      num_cols = map2 (\<lambda>(n, cur) (m, prior). (n, map2 growth_value cur prior))
                   (drop k (num_cols df)) (num_cols df)\<rparr>"

text \<open>A cell-wise operation on a whole frame (\<^verbatim>\<open>fillna\<close>, \<^verbatim>\<open>replace\<close>).\<close>

definition map_frame :: "('a \<Rightarrow> 'b) \<Rightarrow> 'a frame \<Rightarrow> 'b frame" where
  "map_frame f df =
     \<lparr>label_name = label_name df,
      row_labels = row_labels df,
      num_cols = map (\<lambda>(n, vs). (n, map f vs)) (num_cols df)\<rparr>"

text \<open>
  The mix table of the superstore script:
  \<^verbatim>\<open>mix = df[[pivot] + list(df.columns[df.columns.str.endswith(df.columns[-1][-2:])])].copy()
  for col in mix.select_dtypes(include='number').columns.to_list():
      mix[col] = (mix[col] / mix[col].iloc[-1]) * 100
  mix = mix.drop(mix.columns[1], axis=1)\<close>
  The columns whose name ends like the last column's name (its last two characters, the
  quarter) are kept, each is divided by its own last row (the total) and scaled by 100,
  and the first of them is dropped. None of the pivot columns used by the script has a
  name ending in a quarter, so only numeric columns are selected. (With no numeric
  column at all the frame has nothing to select; the model then has no mix column.)
\<close>

definition last2 :: "string \<Rightarrow> string" where
  "last2 s = drop (length s - 2) s"

definition mix :: "real frame \<Rightarrow> fval frame" where
  "mix df =
     (let cols = num_cols df;
          selected = (if cols = [] then []
                      else filter (\<lambda>(n, vs). suffix (last2 (fst (last cols))) n) cols);
          scaled = map (\<lambda>(n, vs). (n, map (\<lambda>v. np_mul (np_div (Finite v) (last vs)) 100) vs)) selected
      in \<lparr>label_name = label_name df, row_labels = row_labels df, num_cols = drop 1 scaled\<rparr>)"

subsection \<open>The demo script (lines 494 to 503)\<close>

text \<open>
  The pivot of the demo script is complete (every region has a value for every year), so
  its cells are finite reals. \<open>df_table\<close> is the table with its total row,
  \<open>df_table_qoq\<close> the year-over-year growth; the demo script cleans up nothing afterwards.
\<close>

definition df_table :: "real frame \<Rightarrow> real frame" where
  "df_table pivoted = add_total_row pivoted"

definition df_table_qoq :: "real frame \<Rightarrow> fval frame" where
  "df_table_qoq pivoted = growth 1 (df_table pivoted)"

subsection \<open>The superstore script, pivot slides (lines 644 to 668)\<close>

text \<open>
  A category without sales in a quarter leaves a missing cell in the pivot (\<open>None\<close>),
  which \<^verbatim>\<open>df_hc.fillna(0)\<close> turns into zero before the total row is appended.
  \<open>df_hc_full\<close> is \<open>df_hc\<close> with its total row, before its first four quarters are dropped;
  growth and mix are computed from it. Afterwards \<^verbatim>\<open>fillna(0)\<close> is applied to both derived
  tables and \<^verbatim>\<open>replace([np.inf], 100)\<close> to the growth table.
\<close>

definition nan_to_zero :: "real option \<Rightarrow> real" where
  "nan_to_zero c = (case c of None \<Rightarrow> 0 | Some x \<Rightarrow> x)"

definition df_hc_full :: "real option frame \<Rightarrow> real frame" where
  "df_hc_full pivoted = add_total_row (map_frame nan_to_zero pivoted)"

definition df_hc_qoq :: "real option frame \<Rightarrow> fval frame" where
  "df_hc_qoq pivoted = map_frame replace_inf_100 (map_frame fillna0 (growth 4 (df_hc_full pivoted)))"

definition df_hc_mix :: "real option frame \<Rightarrow> fval frame" where
  "df_hc_mix pivoted = map_frame fillna0 (mix (df_hc_full pivoted))"

definition df_hc :: "real option frame \<Rightarrow> real frame" where
  "df_hc pivoted = (df_hc_full pivoted)\<lparr>num_cols := drop 4 (num_cols (df_hc_full pivoted))\<rparr>"

subsection \<open>Example tables\<close>

definition pivot_example :: "real option frame" where
  "pivot_example =
     \<lparr>label_name = ''Segment'',
      row_labels = [''Consumer'', ''Corporate''],
      num_cols =
        [(''2015-Q1'', [Some 0, Some 4]), (''2015-Q2'', [Some 0, None]),
         (''2015-Q3'', [Some 1, Some 2]), (''2015-Q4'', [Some 1, Some 3]),
         (''2016-Q1'', [Some 5, Some 6]), (''2016-Q2'', [Some 0, Some 0]),
         (''2016-Q3'', [Some 3, Some 2]), (''2016-Q4'', [Some 3, Some 1])]\<rparr>"



definition table_example :: "real frame" where
  "table_example =
     \<lparr>label_name = ''Region'',
      row_labels = [''Midwest'', ''Northeast''],
      num_cols = [(''2015'', [10000, 20000]), (''2016'', [15000, 10000])]\<rparr>"

section \<open>The two scripts as runs\<close>

text \<open>
  Below the helper functions each script is a sequence of top-level statements that
  build the presentation in memory and save it. The model keeps what the statements do
  to the presentation and to the files of the working directory, and which of them can
  end the run:
  \<^item> A statement is identified by its source line. Each statement calls into the
    dataframe, plotting or presentation library, and any such call can raise: whether the
    statement at a line raises is given by the environment (\<open>raises\<close>), for the demo
    script by the line alone, inside the slide loop of the superstore script by the
    position of the slide and the line.
  \<^item> A statement that raises has no effect; one that does not has its effect on the
    world. A helper call (\<^verbatim>\<open>table\<close>, \<^verbatim>\<open>trend_table\<close>, \<^verbatim>\<open>autoshape\<close>, \<^verbatim>\<open>column_chart\<close>,
    \<^verbatim>\<open>seaborn_boxplot\<close>, ...) is one statement, and of what it draws the model keeps one
    shape with its title. Positions, sizes, fonts and colours are not kept.
  \<^item> An exception carries the world as it was when the statement raised, so that a
    handler continues from there.
  \<^item> The bytes the library writes for a presentation are given by the environment
    (\<open>package_bytes\<close>), as are the names of the top customers and the texts formatted
    from the data.
\<close>

datatype shape_kind = TextBox | AutoShape string | Table | Chart | Picture | Connector

datatype shape = Shape shape_kind "string list"

record world =
  slides :: "shape list list"
  files :: "string \<Rightarrow> nat list option"

datatype effect =
    NoEffect
  | NewPresentation
  | NewSlide
  | AddShape shape_kind "string list"
  | SetText "string list"
  | AddParagraph
  | AddRun string
  | Save string

record env =
  raises :: "nat \<Rightarrow> nat \<Rightarrow> py_error option"
  package_bytes :: "shape list list \<Rightarrow> nat list"
  customers :: "string list"
  data_text :: "nat \<Rightarrow> nat \<Rightarrow> string list"

text \<open>
  The variable \<^verbatim>\<open>slide\<close> is the slide added last, and \<^verbatim>\<open>textbox\<close> or \<^verbatim>\<open>shape\<close> the shape
  added last to it.
\<close>

definition on_current_slide :: "(shape list \<Rightarrow> shape list) \<Rightarrow> world \<Rightarrow> world" where
  "on_current_slide f w =
     (if slides w = [] then w
      else w\<lparr>slides := butlast (slides w) @ [f (last (slides w))]\<rparr>)"

definition on_last_shape :: "(string list \<Rightarrow> string list) \<Rightarrow> shape list \<Rightarrow> shape list" where
  "on_last_shape g s =
     (if s = [] then s
      else butlast s @ [case last s of Shape k t \<Rightarrow> Shape k (g t)])"

text \<open>
  \<open>NewPresentation\<close> is \<^verbatim>\<open>prs = Presentation()\<close>, a presentation without slides;
  \<open>NewSlide\<close> is \<^verbatim>\<open>prs.slides.add_slide\<close>; \<open>AddShape\<close> a call that adds a shape to the
  slide; \<open>SetText\<close> is \<^verbatim>\<open>shape_text\<close>, which replaces the paragraphs of the shape;
  \<open>AddParagraph\<close> and \<open>AddRun\<close> are \<^verbatim>\<open>tf.add_paragraph()\<close> and \<^verbatim>\<open>run.text = ...\<close>;
  \<open>Save\<close> is \<^verbatim>\<open>prs.save(path)\<close>, the only statement of either script that writes a file
  (\<^verbatim>\<open>seaborn_boxplot\<close> saves its figure into a \<^verbatim>\<open>BytesIO\<close> buffer in memory).
\<close>

definition apply_effect :: "env \<Rightarrow> effect \<Rightarrow> world \<Rightarrow> world" where
  "apply_effect env eff w =
     (case eff of
        NoEffect \<Rightarrow> w
      | NewPresentation \<Rightarrow> w\<lparr>slides := []\<rparr>
      | NewSlide \<Rightarrow> w\<lparr>slides := slides w @ [[]]\<rparr>
      | AddShape k t \<Rightarrow> on_current_slide (\<lambda>s. s @ [Shape k t]) w
      | SetText t \<Rightarrow> on_current_slide (on_last_shape (\<lambda>_. t)) w
      | AddParagraph \<Rightarrow> on_current_slide (on_last_shape (\<lambda>t. t @ [[]])) w
      | AddRun r \<Rightarrow>
          on_current_slide (on_last_shape (\<lambda>t. if t = [] then t else butlast t @ [last t @ r])) w
      | Save path \<Rightarrow> w\<lparr>files := (files w)(path \<mapsto> package_bytes env (slides w))\<rparr>)"

type_synonym outcome = "(py_error \<times> world) + world"

text \<open>Statements in sequence: the first that raises ends the sequence.\<close>

fun run_stmts :: "env \<Rightarrow> nat \<Rightarrow> (nat \<times> effect) list \<Rightarrow> world \<Rightarrow> outcome" where
  "run_stmts env i [] w = Inr w"
| "run_stmts env i ((line, eff) # rest) w =
     (case raises env i line of
        Some e \<Rightarrow> Inl (e, w)
      | None \<Rightarrow> run_stmts env i rest (apply_effect env eff w))"

definition then_run :: "outcome \<Rightarrow> (world \<Rightarrow> outcome) \<Rightarrow> outcome" where
  "then_run r f = (case r of Inl x \<Rightarrow> Inl x | Inr w \<Rightarrow> f w)"

text \<open>\<^verbatim>\<open>try: body except: handler\<close>, a bare \<^verbatim>\<open>except\<close> that catches every exception.\<close>

definition try_except :: "(world \<Rightarrow> outcome) \<Rightarrow> (world \<Rightarrow> outcome) \<Rightarrow> world \<Rightarrow> outcome" where
  "try_except body handler w =
     (case body w of
        Inl (e, w') \<Rightarrow> handler w'
      | Inr w' \<Rightarrow> Inr w')"

subsection \<open>The demo script\<close>

text \<open>
  The longer texts of the demo script, named by the source line of the string.
\<close>

definition demo_text_536 :: string where
  "demo_text_536 =
     ''Textbox example. Each textbox has a single text frame and is made up of ''
       @ ''multiple paragraphs.''"

definition demo_text_541_1 :: string where
  "demo_text_541_1 =
     ''A paragraph is any block of text broken up by a new line character.''"

definition demo_text_541_4 :: string where
  "demo_text_541_4 =
     ''A text frame contains at least one initial paragraph.''"

definition demo_text_548 :: string where
  "demo_text_548 =
     ''A paragraph is made up of multiple runs. A run is a segment of text with ''
       @ ''shared styling.''"

definition demo_text_551 :: string where
  "demo_text_551 =
     ''Horizontal alignment is done at the paragraph level.''"

definition demo_text_555 :: string where
  "demo_text_555 =
     ''Vertical alignment is done at the text frame level.''"

definition demo_text_559 :: string where
  "demo_text_559 =
     ''Text formatting is done at the run level:''"

definition demo_text_627 :: string where
  "demo_text_627 =
     ''Shape fill/outline color along with outline weight. This cloud is colored ''
       @ ''dark gray with a white border that is 3px thick.''"

definition demo_text_629 :: string where
  "demo_text_629 =
     ''Shapes can be rotated by any degree. This lightning bolt is rotated 315 ''
       @ ''degrees.''"

definition demo_text_631 :: string where
  "demo_text_631 =
     ''Most shapes are created with a shadow effect by default. This lightning ''
       @ ''bolt has its shadow effect removed.''"

definition demo_text_633 :: string where
  "demo_text_633 =
     ''Most shape objects have an existing text fame that can be used to insert ''
       @ ''text. Each star below has the number of points written in the center of the ''
       @ ''shape.''"

definition demo_text_647 :: string where
  "demo_text_647 =
     ''Most of the built-in PowerPoint charts are accessible in python. This is an ''
       @ ''example of a stacked column chart with randomly generated data. The plot ''
       @ ''contains 4 series, one for each region.''"

definition demo_text_649 :: string where
  "demo_text_649 =
     ''Axes labels can also be formatted, such as formatting the y-axis as $ ''
       @ ''amounts, or rotating the x-axis labels by 45/90 degrees for easier ''
       @ ''readability.''"

definition demo_text_651 :: string where
  "demo_text_651 =
     ''Chart legends can also be added/positioned.''"

definition demo_text_668 :: string where
  "demo_text_668 =
     ''A table is created by setting the number of rows x columns. Each cell is ''
       @ ''like its own textbox and can have individual formatting. Cells can be ''
       @ ''accessed by looping through the table's index matrix.''"

definition demo_text_670 :: string where
  "demo_text_670 =
     ''Cells can be merged together. The first row in the table is merged as a ''
       @ ''single cell.''"

definition demo_text_672 :: string where
  "demo_text_672 =
     ''A cell's background color can be any RGB value.''"

definition demo_text_674 :: string where
  "demo_text_674 =
     ''Borders can be applied to individual cells.''"

definition demo_text_676 :: string where
  "demo_text_676 =
     ''Cell margins can be altered for better readability. All $ value cells have ''
       @ ''a left, top, and bottom cell margin of 0 inches with a small margin on the ''
       @ ''right.''"

definition demo_text_678 :: string where
  "demo_text_678 =
     ''Sparklines can be recreated by inserting a table with blank values and ''
       @ ''overlaying a small line chart to fit within the cell dimensions. All other ''
       @ ''plot elements are removed such as axes, labels, gridlines, and legends.''"

definition demo_text_692 :: string where
  "demo_text_692 =
     ''Any image file can be inserted into PowerPoint. For example, boxplots are ''
       @ ''not available in the python API, so the chart can be made in seaborn then ''
       @ ''saved as a PNG image and inserted onto the slide.''"

definition demo_text_695 :: string where
  "demo_text_695 =
     ''Any image file can be inserted into PowerPoint. The image file was unable ''
       @ ''to be inserted into the file. Check the seaborn_boxplot() function.''"

definition conclusion_text :: string where
  "conclusion_text =
     [CHR 10]
       @ ''python-pptx is a versatile library that allows you to manipulate PowerPoint ''
       @ ''files. It is useful for analyses that require many different cuts of the ''
       @ ''data or have a refresh cycle (i.e., a slide deck is updated at the end of ''
       @ ''every month/quarter). PowerPoint files can be created using the default ''
       @ ''settings, or an existing file can be read and manipulated. Uploading an ''
       @ ''existing file can be useful if a company has a set template already defined.''
       @ [CHR 10]
       @ ''This allows python to do a lot of the heavy lifting by calculating metrics ''
       @ ''and creating visuals quickly. Then the user can open the file and finish ''
       @ ''the presentation with any additional comments or formatting.''
       @ [CHR 10]"

text \<open>
  The top-level statements of the demo script from line 487 on, by slide. The statement
  lists follow the source line by line: every assignment or call that only formats or
  computes is \<open>NoEffect\<close>.
\<close>

definition demo_setup :: "(nat \<times> effect) list" where
  "demo_setup =
     [(487, NoEffect),
      (492, NoEffect),
      (494, NoEffect),
      (496, NoEffect),
      (497, NoEffect),
      (498, NoEffect),
      (499, NoEffect),
      (501, NoEffect),
      (502, NoEffect),
      (508, NewPresentation),
      (510, NoEffect),
      (511, NoEffect)]"

definition demo_slide_title :: "(nat \<times> effect) list" where
  "demo_slide_title =
     [(517, NewSlide),
      (519, AddShape TextBox []),
      (521, SetText [''Presentation Demo'']),
      (523, AddShape TextBox []),
      (524, SetText [''python-pptx''])]"

definition demo_slide_text :: "(nat \<times> effect) list" where
  "demo_slide_text =
     [(530, NewSlide),
      (532, AddShape TextBox []),
      (533, SetText [''Text Example'']),
      (535, AddShape TextBox []),
      (536, SetText [demo_text_536]),
      (538, AddShape TextBox []),
      (539, NoEffect),
      (540, NoEffect),
      (541, SetText [demo_text_541_1, ''This is paragraph 2.'',
         ''This is paragraph 3.'', demo_text_541_4]),
      (547, AddShape TextBox []),
      (548, SetText [demo_text_548]),
      (550, AddShape TextBox []),
      (551, SetText [demo_text_551]),
      (552, NoEffect),
      (554, AddShape TextBox []),
      (555, SetText [demo_text_555]),
      (556, NoEffect),
      (558, AddShape TextBox []),
      (559, SetText [demo_text_559]),
      (561, AddShape TextBox []),
      (562, SetText [''Text color can be any RGB value. '']),
      (563, NoEffect),
      (564, AddParagraph),
      (565, NoEffect),
      (566, AddRun ''Text emphasis such as ''),
      (567, NoEffect),
      (568, NoEffect),
      (570, NoEffect),
      (571, AddRun ''bold, ''),
      (572, NoEffect),
      (573, NoEffect),
      (574, NoEffect),
      (576, NoEffect),
      (577, AddRun ''italics, ''),
      (578, NoEffect),
      (579, NoEffect),
      (580, NoEffect),
      (582, NoEffect),
      (583, AddRun ''underline. ''),
      (584, NoEffect),
      (585, NoEffect),
      (586, NoEffect),
      (588, NoEffect),
      (589, AddRun ''Font size can be any point value. ''),
      (590, NoEffect),
      (591, NoEffect),
      (593, NoEffect),
      (594, AddRun ''Text can be hyperlinked to a URL.''),
      (595, NoEffect),
      (596, NoEffect),
      (597, NoEffect)]"

definition demo_slide_shapes :: "(nat \<times> effect) list" where
  "demo_slide_shapes =
     [(603, NewSlide),
      (605, AddShape TextBox []),
      (606, SetText [''Shapes Example'']),
      (608, NoEffect),
      (610, AddShape (AutoShape ''CLOUD'') []),
      (611, AddShape (AutoShape ''LIGHTNING_BOLT'') []),
      (613, AddShape (AutoShape ''LIGHTNING_BOLT'') []),
      (615, AddShape (AutoShape ''LIGHTNING_BOLT'') []),
      (617, AddShape (AutoShape ''STAR_5_POINT'') []),
      (618, SetText [''5'']),
      (619, AddShape (AutoShape ''STAR_6_POINT'') []),
      (620, SetText [''6'']),
      (621, AddShape (AutoShape ''STAR_7_POINT'') []),
      (622, SetText [''7'']),
      (623, AddShape (AutoShape ''STAR_8_POINT'') []),
      (624, SetText [''8'']),
      (626, AddShape TextBox []),
      (627, SetText [demo_text_627]),
      (628, AddShape TextBox []),
      (629, SetText [demo_text_629]),
      (630, AddShape TextBox []),
      (631, SetText [demo_text_631]),
      (632, AddShape TextBox []),
      (633, SetText [demo_text_633])]"

definition demo_slide_chart :: "(nat \<times> effect) list" where
  "demo_slide_chart =
     [(639, NewSlide),
      (641, AddShape TextBox []),
      (642, SetText [''Charts Example'']),
      (644, AddShape Chart [''Yearly Sales'']),
      (646, AddShape TextBox []),
      (647, SetText [demo_text_647]),
      (648, AddShape TextBox []),
      (649, SetText [demo_text_649]),
      (650, AddShape TextBox []),
      (651, SetText [demo_text_651])]"

definition demo_slide_table :: "(nat \<times> effect) list" where
  "demo_slide_table =
     [(657, NewSlide),
      (659, AddShape TextBox []),
      (660, SetText [''Tables and Sparklines Example'']),
      (662, AddShape Table [''Yearly Sales ($)'']),
      (664, AddShape Table [''10 Year'',
         ''Trend'']),
      (665, AddShape Table [''10 Year'',
         ''YoY Growth (%)'']),
      (667, AddShape TextBox []),
      (668, SetText [demo_text_668]),
      (669, AddShape TextBox []),
      (670, SetText [demo_text_670]),
      (671, AddShape TextBox []),
      (672, SetText [demo_text_672]),
      (673, AddShape TextBox []),
      (674, SetText [demo_text_674]),
      (675, AddShape TextBox []),
      (676, SetText [demo_text_676]),
      (677, AddShape TextBox []),
      (678, SetText [demo_text_678])]"

definition demo_slide_picture :: "(nat \<times> effect) list" where
  "demo_slide_picture =
     [(684, NewSlide),
      (686, AddShape TextBox []),
      (687, SetText [''Pictures Example''])]"

definition demo_picture_try :: "(nat \<times> effect) list" where
  "demo_picture_try =
     [(690, AddShape Picture []),
      (691, AddShape TextBox []),
      (692, SetText [demo_text_692])]"

definition demo_picture_except :: "(nat \<times> effect) list" where
  "demo_picture_except =
     [(694, AddShape TextBox []),
      (695, SetText [demo_text_695])]"

definition demo_slide_conclusion :: "(nat \<times> effect) list" where
  "demo_slide_conclusion =
     [(700, NewSlide),
      (702, AddShape TextBox []),
      (703, SetText [''Conclusion'']),
      (705, NoEffect),
      (709, AddShape TextBox []),
      (710, SetText [conclusion_text])]"

definition demo_save :: "(nat \<times> effect) list" where
  "demo_save =
     [(713, Save ''./python_pptx_demo.pptx'')]"

text \<open>
  The demo script: everything before the picture step, the \<^verbatim>\<open>try\<close> statement of the
  picture slide (lines 689 to 695), then the conclusion slide and \<^verbatim>\<open>prs.save\<close>.
\<close>

definition demo_mainline_before :: "(nat \<times> effect) list" where
  "demo_mainline_before =
     demo_setup @ demo_slide_title @ demo_slide_text @ demo_slide_shapes @ demo_slide_chart
       @ demo_slide_table @ demo_slide_picture"

definition demo_mainline_after :: "(nat \<times> effect) list" where
  "demo_mainline_after = demo_slide_conclusion @ demo_save"

definition demo_run :: "env \<Rightarrow> world \<Rightarrow> outcome" where
  "demo_run env w =
     then_run (run_stmts env 0 demo_mainline_before w)
       (\<lambda>w. then_run
               (try_except (run_stmts env 0 demo_picture_try) (run_stmts env 0 demo_picture_except) w)
               (run_stmts env 0 demo_mainline_after))"

subsection \<open>The superstore script\<close>

text \<open>
  An entry of \<^verbatim>\<open>slide_order\<close> is a dictionary. Every entry has the keys \<^verbatim>\<open>type\<close> and
  \<^verbatim>\<open>title\<close>; \<^verbatim>\<open>sub_title\<close>, \<^verbatim>\<open>pivot\<close> and \<^verbatim>\<open>filters\<close> are present in some entries only, and
  subscripting an entry with a key it does not have raises \<^verbatim>\<open>KeyError\<close>.
\<close>

record slide_spec =
  stype :: string
  title :: string
  sub_title :: "string option"
  pivot :: "string option"
  filters :: "string option"

definition slide_order :: "slide_spec list" where
  "slide_order =
     [\<lparr>stype = ''transition'', title = ''Superstore Analysis'',
        sub_title = Some ''a python-pptx use case'', pivot = None, filters = None\<rparr>,
      \<lparr>stype = ''pivot_summary'', title = ''Segment'',
        sub_title = None, pivot = Some ''Segment'', filters = None\<rparr>,
      \<lparr>stype = ''pivot_summary'', title = ''Region'',
        sub_title = None, pivot = Some ''Region'', filters = None\<rparr>,
      \<lparr>stype = ''pivot_summary'', title = ''Category'',
        sub_title = None, pivot = Some ''Category'', filters = None\<rparr>,
      \<lparr>stype = ''top_customers'', title = ''Top Performing Customers'',
        sub_title = None, pivot = None, filters = None\<rparr>,
      \<lparr>stype = ''ship_mode_analysis'', title = ''Ship Mode Comparison'',
        sub_title = None, pivot = None, filters = None\<rparr>,
      \<lparr>stype = ''transition'', title = ''Appendix'',
        sub_title = None, pivot = None, filters = None\<rparr>,
      \<lparr>stype = ''pivot_dbl_click'', title = ''Region: East'',
        sub_title = None, pivot = Some ''State'',
        filters = Some (''Region == '' @ [CHR 0x22] @ ''East'' @ [CHR 0x22])\<rparr>,
      \<lparr>stype = ''pivot_dbl_click'', title = ''Region: West'',
        sub_title = None, pivot = Some ''State'',
        filters = Some (''Region == '' @ [CHR 0x22] @ ''West'' @ [CHR 0x22])\<rparr>,
      \<lparr>stype = ''pivot_dbl_click'', title = ''Region: South'',
        sub_title = None, pivot = Some ''State'',
        filters = Some (''Region == '' @ [CHR 0x22] @ ''South'' @ [CHR 0x22])\<rparr>,
      \<lparr>stype = ''pivot_dbl_click'', title = ''Region: Central'',
        sub_title = None, pivot = Some ''State'',
        filters = Some (''Region == '' @ [CHR 0x22] @ ''Central'' @ [CHR 0x22])\<rparr>,
      \<lparr>stype = ''pivot_dbl_click'', title = ''Category: Furniture'',
        sub_title = None, pivot = Some ''Sub-Category'',
        filters = Some (''Sub-Category == '' @ [CHR 0x22] @ ''Furniture'' @ [CHR 0x22])\<rparr>,
      \<lparr>stype = ''pivot_dbl_click'', title = ''Category: Technology'',
        sub_title = None, pivot = Some ''Sub-Category'',
        filters = Some (''Sub-Category == '' @ [CHR 0x22] @ ''Technology'' @ [CHR 0x22])\<rparr>,
      \<lparr>stype = ''pivot_dbl_click'', title = ''Category: Office Supplies'',
        sub_title = None, pivot = Some ''Sub-Category'',
        filters = Some (''Sub-Category == '' @ [CHR 0x22] @ ''Office Supplies'' @ [CHR 0x22])\<rparr>]"

text \<open>
  The two \<^verbatim>\<open>match current_slide['type']\<close> statements of the loop body. The first case of
  each is \<^verbatim>\<open>case x if x.startswith('pivot')\<close>, the others compare with a literal. The first
  \<^verbatim>\<open>match\<close> (the dataframes of the slide) has no case for \<open>transition\<close>.
\<close>

datatype branch = PivotSlide | TopCustomers | ShipModeAnalysis | Transition | NoBranch

definition prepare_branch :: "string \<Rightarrow> branch" where
  "prepare_branch t =
     (if prefix ''pivot'' t then PivotSlide
      else if t = ''top_customers'' then TopCustomers
      else if t = ''ship_mode_analysis'' then ShipModeAnalysis
      else NoBranch)"

definition render_branch :: "string \<Rightarrow> branch" where
  "render_branch t =
     (if prefix ''pivot'' t then PivotSlide
      else if t = ''top_customers'' then TopCustomers
      else if t = ''ship_mode_analysis'' then ShipModeAnalysis
      else if t = ''transition'' then Transition
      else NoBranch)"

text \<open>Lines 617 to 633: reading the CSV file, the derived columns, the presentation.\<close>

definition superstore_setup :: "(nat \<times> effect) list" where
  "superstore_setup =
     [(617, NoEffect), (618, NoEffect), (619, NoEffect), (620, NoEffect), (621, NoEffect),
      (622, NoEffect), (623, NoEffect), (624, NoEffect), (625, NoEffect), (626, NoEffect),
      (630, NewPresentation), (632, NoEffect), (633, NoEffect)]"

text \<open>
  Lines 640 to 643, the first \<^verbatim>\<open>try\<close> statement of the script:
  \<^verbatim>\<open>try: df_hc = df.query(current_slide['filters'])
  except: df_hc = df.copy()\<close>
  The subscript is evaluated first and raises \<^verbatim>\<open>KeyError\<close> for an entry without filters.
\<close>

definition query_step :: "env \<Rightarrow> nat \<Rightarrow> slide_spec \<Rightarrow> world \<Rightarrow> outcome" where
  "query_step env i current_slide w =
     (case filters current_slide of
        None \<Rightarrow> Inl (KeyError, w)
      | Some f \<Rightarrow> run_stmts env i [(641, NoEffect)] w)"

text \<open>Lines 644 to 670: the pivot, its total row, growth and mix; line 670 only for
  \<open>pivot_summary\<close>.\<close>

definition pivot_frames :: "slide_spec \<Rightarrow> (nat \<times> effect) list" where
  "pivot_frames current_slide =
     [(644, NoEffect), (645, NoEffect), (648, NoEffect), (649, NoEffect), (650, NoEffect),
      (651, NoEffect), (654, NoEffect), (655, NoEffect), (659, NoEffect), (660, NoEffect),
      (662, NoEffect), (663, NoEffect), (666, NoEffect), (667, NoEffect), (668, NoEffect)]
     @ (if stype current_slide = ''pivot_summary'' then [(670, NoEffect)] else [])"

definition top_customers_frames :: "(nat \<times> effect) list" where
  "top_customers_frames =
     [(673, NoEffect), (675, NoEffect), (677, NoEffect), (679, NoEffect), (681, NoEffect),
      (683, NoEffect), (684, NoEffect), (685, NoEffect), (686, NoEffect), (688, NoEffect),
      (689, NoEffect), (691, NoEffect), (692, NoEffect), (694, NoEffect), (695, NoEffect)]"

definition ship_mode_frames :: "(nat \<times> effect) list" where
  "ship_mode_frames = [(697, NoEffect), (698, NoEffect), (699, NoEffect), (700, NoEffect)]"

definition prepare :: "env \<Rightarrow> nat \<Rightarrow> slide_spec \<Rightarrow> world \<Rightarrow> outcome" where
  "prepare env i current_slide w =
     (case prepare_branch (stype current_slide) of
        PivotSlide \<Rightarrow>
          then_run (try_except (query_step env i current_slide) (run_stmts env i [(643, NoEffect)]) w)
            (\<lambda>w. case pivot current_slide of
                    None \<Rightarrow> Inl (KeyError, w)
                  | Some p \<Rightarrow> run_stmts env i (pivot_frames current_slide) w)
      | TopCustomers \<Rightarrow> run_stmts env i top_customers_frames w
      | ShipModeAnalysis \<Rightarrow> run_stmts env i ship_mode_frames w
      | _ \<Rightarrow> Inr w)"

text \<open>Lines 706 to 718: the pivot slide.\<close>

definition pivot_render :: "slide_spec \<Rightarrow> (nat \<times> effect) list" where
  "pivot_render current_slide =
     [(706, AddShape TextBox []),
      (707, SetText [title current_slide]),
      (709, AddShape Table [''Sales ($)'']),
      (711, AddShape Table [''Sales YoY Growth (%)'']),
      (713, AddShape Table [''12 Quarter'', ''Trend'']),
      (714, AddShape Table [''12 Quarter'', ''YoY Growth (%)'']),
      (716, AddShape Table [''Sales Proportion (%)''])]
     @ (if stype current_slide = ''pivot_summary''
        then [(718, AddShape Chart [''Monthly Sales''])] else [])"

text \<open>
  Lines 721 to 762: the header of the top customers slide and the loop over the customers.
  \<^verbatim>\<open>medal_color[index]\<close> in line 732 raises \<^verbatim>\<open>IndexError\<close> from the fourth customer on.
  The texts formatted from the dataframes are those of the environment.
\<close>

definition top_customers_header :: "slide_spec \<Rightarrow> (nat \<times> effect) list" where
  "top_customers_header current_slide =
     [(721, NoEffect), (723, AddShape TextBox []), (724, SetText [title current_slide])]"

definition customer_ribbon :: "(nat \<times> effect) list" where
  "customer_ribbon =
     [(728, NoEffect), (729, AddShape (AutoShape ''CHEVRON'') []),
      (731, AddShape (AutoShape ''STAR_7_POINT'') [])]"

definition customer_card :: "env \<Rightarrow> nat \<Rightarrow> string \<Rightarrow> (nat \<times> effect) list" where
  "customer_card env index customer =
     [(732, SetText [[''1'', ''2'', ''3''] ! index]),
      (734, AddShape TextBox []), (735, SetText [customer]),
      (737, AddShape TextBox []), (738, SetText (data_text env index 738)),
      (739, AddShape TextBox []), (740, SetText [''in the last 3 years'']),
      (742, AddShape TextBox []), (743, SetText (data_text env index 743)),
      (745, AddShape Connector []),
      (747, AddShape TextBox []), (748, SetText (data_text env index 748)),
      (749, AddShape TextBox []), (750, SetText [''on average, annually'']),
      (752, AddShape TextBox []), (753, SetText (data_text env index 753)),
      (754, AddShape TextBox []), (755, SetText [''months between orders'']),
      (757, AddShape Connector []),
      (759, AddShape TextBox []), (760, SetText [''Top Products Purchased'']),
      (761, AddShape TextBox []), (762, SetText (data_text env index 762))]"

fun customer_loop :: "env \<Rightarrow> nat \<Rightarrow> nat \<Rightarrow> string list \<Rightarrow> world \<Rightarrow> outcome" where
  "customer_loop env i index [] w = Inr w"
| "customer_loop env i index (customer # rest) w =
     then_run (run_stmts env i customer_ribbon w)
       (\<lambda>w. if index < 3
             then then_run (run_stmts env i (customer_card env index customer) w)
                    (customer_loop env i (Suc index) rest)
             else Inl (IndexError, w))"

text \<open>Lines 765 to 772: the ship mode slide with the second \<^verbatim>\<open>try\<close> statement of the script.\<close>

definition ship_mode_header :: "slide_spec \<Rightarrow> (nat \<times> effect) list" where
  "ship_mode_header current_slide =
     [(765, AddShape TextBox []), (766, SetText [title current_slide])]"

definition ship_mode_try :: "(nat \<times> effect) list" where
  "ship_mode_try = [(769, AddShape Picture [])]"

definition ship_mode_except :: "(nat \<times> effect) list" where
  "ship_mode_except =
     [(771, AddShape TextBox []),
      (772, SetText [''The image file was unable to be inserted into the file.''])]"

text \<open>Lines 775 to 779: a transition slide; the sub-title only \<^verbatim>\<open>if 'sub_title' in current_slide\<close>.\<close>

definition transition_render :: "slide_spec \<Rightarrow> (nat \<times> effect) list" where
  "transition_render current_slide =
     [(775, AddShape TextBox []), (776, SetText [title current_slide])]
     @ (case sub_title current_slide of
          None \<Rightarrow> []
        | Some s \<Rightarrow> [(778, AddShape TextBox []), (779, SetText [s])])"

definition render :: "env \<Rightarrow> nat \<Rightarrow> slide_spec \<Rightarrow> world \<Rightarrow> outcome" where
  "render env i current_slide w =
     (case render_branch (stype current_slide) of
        PivotSlide \<Rightarrow> run_stmts env i (pivot_render current_slide) w
      | TopCustomers \<Rightarrow>
          then_run (run_stmts env i (top_customers_header current_slide) w)
            (customer_loop env i 0 (customers env))
      | ShipModeAnalysis \<Rightarrow>
          then_run (run_stmts env i (ship_mode_header current_slide) w)
            (try_except (run_stmts env i ship_mode_try) (run_stmts env i ship_mode_except))
      | Transition \<Rightarrow> run_stmts env i (transition_render current_slide) w
      | NoBranch \<Rightarrow> Inr w)"

text \<open>The body of \<^verbatim>\<open>for current_slide in slide_order\<close>, the loop, and the script.\<close>

definition process_slide :: "env \<Rightarrow> nat \<Rightarrow> slide_spec \<Rightarrow> world \<Rightarrow> outcome" where
  "process_slide env i current_slide w =
     then_run (prepare env i current_slide w)
       (\<lambda>w. then_run (run_stmts env i [(702, NewSlide)] w) (render env i current_slide))"

fun slide_loop :: "env \<Rightarrow> nat \<Rightarrow> slide_spec list \<Rightarrow> world \<Rightarrow> outcome" where
  "slide_loop env i [] w = Inr w"
| "slide_loop env i (current_slide # rest) w =
     then_run (process_slide env i current_slide w) (slide_loop env (Suc i) rest)"

definition superstore_save :: "(nat \<times> effect) list" where
  "superstore_save = [(781, Save ''./superstore_example.pptx'')]"

definition superstore_run :: "env \<Rightarrow> world \<Rightarrow> outcome" where
  "superstore_run env w =
     then_run (run_stmts env 0 superstore_setup w)
       (\<lambda>w. then_run (slide_loop env 0 slide_order w) (run_stmts env 0 superstore_save))"

subsection \<open>Example environments\<close>

text \<open>An environment in which no statement raises, and an empty working directory.\<close>

definition quiet_env :: env where
  "quiet_env =
     \<lparr>raises = (\<lambda>i line. None),
      package_bytes = (\<lambda>deck. [80, 75, 3, 4]),
      customers = [''Sean Miller'', ''Tamara Chand'', ''Raymond Buch''],
      data_text = (\<lambda>index line. [])\<rparr>"

definition empty_world :: world where
  "empty_world = \<lparr>slides = [], files = (\<lambda>path. None)\<rparr>"

text \<open>Environments in which one statement raises: the picture step of either script
  (lines 690 and 769), and the text box that follows the picture in the demo script.\<close>

definition raising_at :: "nat \<Rightarrow> env" where
  "raising_at line = quiet_env\<lparr>raises := (\<lambda>i l. if l = line then Some LibraryError else None)\<rparr>"

subsection \<open>What a part of a run leaves unchanged\<close>

text \<open>
  The world an outcome ends in, whether the run completed or raised, and the statement
  that a part of a run leaves an observation of the world (its files, its slides) as it
  found it.
\<close>

definition world_of :: "outcome \<Rightarrow> world" where
  "world_of r = (case r of Inl (e, w) \<Rightarrow> w | Inr w \<Rightarrow> w)"

definition keeps :: "(world \<Rightarrow> 'a) \<Rightarrow> (world \<Rightarrow> outcome) \<Rightarrow> bool" where
  "keeps obs f = (\<forall>w. obs (world_of (f w)) = obs w)"

definition saves :: "effect \<Rightarrow> bool" where
  "saves eff = (case eff of Save path \<Rightarrow> True | _ \<Rightarrow> False)"

definition slide_local :: "effect \<Rightarrow> bool" where
  "slide_local eff = (case eff of NewSlide \<Rightarrow> False | NewPresentation \<Rightarrow> False | _ \<Rightarrow> True)"

definition earlier_slides :: "world \<Rightarrow> nat \<times> shape list list" where
  "earlier_slides w = (length (slides w), butlast (slides w))"

text \<open>
  An environment in which no statement raises except, possibly, those at the given lines.
\<close>

definition quiet_except :: "env \<Rightarrow> nat set \<Rightarrow> bool" where
  "quiet_except env lines = (\<forall>i l. l \<notin> lines \<longrightarrow> raises env i l = None)"

text \<open>
  The number of slides after a sequence of statements that do not raise, from the number
  before it.
\<close>

fun count_slides :: "(nat \<times> effect) list \<Rightarrow> nat \<Rightarrow> nat" where
  "count_slides [] n = n"
| "count_slides ((line, eff) # rest) n =
     count_slides rest (case eff of NewPresentation \<Rightarrow> 0 | NewSlide \<Rightarrow> Suc n | _ \<Rightarrow> n)"

section \<open>Properties of the formatting helpers\<close>

text \<open>
  C7. \<^verbatim>\<open>_horizontal_alignment\<close> assigns \<open>LEFT\<close>, \<open>CENTER\<close>, \<open>RIGHT\<close> for the strings
  \<open>left\<close>, \<open>center\<close>, \<open>right\<close>, and \<^verbatim>\<open>_vertical_alignment\<close> assigns \<open>TOP\<close>, \<open>MIDDLE\<close>,
  \<open>BOTTOM\<close> for \<open>top\<close>, \<open>middle\<close>, \<open>bottom\<close>; each assignment changes that one
  attribute only, and for every other string the shape is returned as it was.
\<close>

theorem alignment_mapping:
  "horizontal_alignment shape ''left'' = shape\<lparr>alignment := Some LEFT\<rparr>
   \<and> horizontal_alignment shape ''center'' = shape\<lparr>alignment := Some CENTER\<rparr>
   \<and> horizontal_alignment shape ''right'' = shape\<lparr>alignment := Some RIGHT\<rparr>
   \<and> (s \<notin> {''left'', ''center'', ''right''} \<longrightarrow> horizontal_alignment shape s = shape)
   \<and> vertical_alignment shape ''top'' = shape\<lparr>vertical_anchor := Some TOP\<rparr>
   \<and> vertical_alignment shape ''middle'' = shape\<lparr>vertical_anchor := Some MIDDLE\<rparr>
   \<and> vertical_alignment shape ''bottom'' = shape\<lparr>vertical_anchor := Some BOTTOM\<rparr>
   \<and> (t \<notin> {''top'', ''middle'', ''bottom''} \<longrightarrow> vertical_alignment shape t = shape)"
  by (simp add: horizontal_alignment_def vertical_alignment_def)

theorem alignment_mapping_witness:
  "horizontal_alignment \<lparr>alignment = Some JUSTIFY, vertical_anchor = None\<rparr> ''Left''
     = \<lparr>alignment = Some JUSTIFY, vertical_anchor = None\<rparr>
   \<and> vertical_alignment \<lparr>alignment = Some JUSTIFY, vertical_anchor = None\<rparr> ''center''
     = \<lparr>alignment = Some JUSTIFY, vertical_anchor = None\<rparr>
   \<and> horizontal_alignment \<lparr>alignment = Some JUSTIFY, vertical_anchor = None\<rparr> ''center''
     = \<lparr>alignment = Some CENTER, vertical_anchor = None\<rparr>"
  using alignment_mapping [of "\<lparr>alignment = Some JUSTIFY, vertical_anchor = None\<rparr>" "''Left''" "''center''"]
  by simp


text \<open>
  C9. In the chart \<^verbatim>\<open>sparkbar\<close> builds for a non-empty list of values, the fill colour
  of every point follows the sign of its value: \<open>(0, 176, 80)\<close> when it is positive,
  \<open>(235, 70, 81)\<close> when it is negative, \<open>(0, 0, 0)\<close> when it is zero. (The infinities
  count as positive and negative; a nan compares neither way and is black.)
\<close>

theorem sparkbar_point_colors:
  "data \<noteq> [] \<Longrightarrow>
     \<exists>ch. sparkbar data = Inr ch \<and> series_values ch = data
       \<and> length (point_fill ch) = length data
       \<and> (\<forall>i<length data. point_fill ch ! i =
             (case data ! i of
                Finite x \<Rightarrow> (if x > 0 then (0, 176, 80) else if x < 0 then (235, 70, 81) else (0, 0, 0))
              | PosInf \<Rightarrow> (0, 176, 80)
              | NegInf \<Rightarrow> (235, 70, 81)
              | NaN \<Rightarrow> (0, 0, 0)))"
proof -
  assume "data \<noteq> []"
  then obtain mx mn where "py_max data = Inr mx" "py_min data = Inr mn"
    by (cases data) (simp_all add: py_max_def py_min_def)
  then have "sparkbar data = Inr \<lparr>categories = [0..<length data], series_values = data,
      maximum_scale = mx, minimum_scale = mn, plot_area_only = True, gap_width = 25,
      invert_if_negative = map (\<lambda>_. 0) data, point_fill = map bar_color data\<rparr>"
    by (simp add: sparkbar_def)
  moreover have "bar_color v =
             (case v of
                Finite x \<Rightarrow> (if x > 0 then (0, 176, 80) else if x < 0 then (235, 70, 81) else (0, 0, 0))
              | PosInf \<Rightarrow> (0, 176, 80)
              | NegInf \<Rightarrow> (235, 70, 81)
              | NaN \<Rightarrow> (0, 0, 0))" for v
    by (cases v) (simp_all add: bar_color_def float_gt_def float_lt_def)
  ultimately show ?thesis by simp
qed

theorem sparkbar_point_colors_witness:
  "[Finite 5, Finite (- 3), Finite 0] \<noteq> []
   \<and> (\<exists>ch. sparkbar [Finite 5, Finite (- 3), Finite 0] = Inr ch
         \<and> point_fill ch ! 0 = (0, 176, 80)
         \<and> point_fill ch ! 1 = (235, 70, 81)
         \<and> point_fill ch ! 2 = (0, 0, 0))"
proof -
  obtain ch where ch: "sparkbar [Finite 5, Finite (- 3), Finite 0] = Inr ch"
    and fills: "\<forall>i<length [Finite 5, Finite (- 3), Finite 0]. point_fill ch ! i =
             (case [Finite 5, Finite (- 3), Finite 0] ! i of
                Finite x \<Rightarrow> (if x > 0 then (0, 176, 80) else if x < 0 then (235, 70, 81) else (0, 0, 0))
              | PosInf \<Rightarrow> (0, 176, 80)
              | NegInf \<Rightarrow> (235, 70, 81)
              | NaN \<Rightarrow> (0, 0, 0))"
    using sparkbar_point_colors [of "[Finite 5, Finite (- 3), Finite 0]"] by auto
  from fills [rule_format, of 0] fills [rule_format, of 1] fills [rule_format, of 2] ch
  show ?thesis by simp
qed

section \<open>Properties of the derived dataframes\<close>

lemmas frame_eval =
  df_table_def df_table_qoq_def df_hc_full_def df_hc_qoq_def df_hc_mix_def df_hc_def
  add_total_row_def totals_def map_frame_def growth_def mix_def nan_to_zero_def
  fillna0_def replace_inf_100_def last2_def
  suffix_to_prefix Let_def in_frame_def cell_at_def col_name_def

lemmas float_eval =
  float64_def binade_def bit_length.simps round_half_even_def pow2_def Let_def

lemma map2_totals:
  "map2 (\<lambda>(n, vs) (m, t). (n, vs @ [t])) cols (map (\<lambda>(n, vs). (n, sum_list vs)) cols)
     = map (\<lambda>(n, vs). (n, vs @ [sum_list vs])) cols"
  by (induction cols) auto

lemma num_cols_add_total_row:
  "num_cols (add_total_row df) = map (\<lambda>(n, vs). (n, vs @ [sum_list vs])) (num_cols df)"
  by (simp add: add_total_row_def totals_def map2_totals)

text \<open>
  C3. In \<open>df_table\<close> (demo script) and in \<open>df_hc\<close> (superstore script, as rendered on a
  pivot slide) the last row is labelled \<open>Total\<close>, and in every numeric column its value
  is the sum of the rows above it, which are the rows of the pivot (with missing cells
  as zero in the superstore script).
\<close>

theorem total_row_is_column_sum:
  "(\<forall>c \<in> set (num_cols (df_table p)). snd c \<noteq> [] \<and> last (snd c) = sum_list (butlast (snd c)))
   \<and> map (\<lambda>(n, vs). (n, butlast vs)) (num_cols (df_table p)) = num_cols p
   \<and> row_labels (df_table p) = row_labels p @ [''Total'']
   \<and> (\<forall>c \<in> set (num_cols (df_hc q)). snd c \<noteq> [] \<and> last (snd c) = sum_list (butlast (snd c)))
   \<and> map (\<lambda>(n, vs). (n, butlast vs)) (num_cols (df_hc q)) = drop 4 (num_cols (map_frame nan_to_zero q))
   \<and> row_labels (df_hc q) = row_labels q @ [''Total'']"
proof -
  have a: "\<forall>c \<in> set (num_cols (add_total_row d)). snd c \<noteq> [] \<and> last (snd c) = sum_list (butlast (snd c))" for d
    by (auto simp: num_cols_add_total_row)
  have b: "map (\<lambda>(n, vs). (n, butlast vs)) (num_cols (add_total_row d)) = num_cols d" for d
    by (simp add: num_cols_add_total_row comp_def case_prod_beta)
  have c: "map (\<lambda>(n, vs). (n, butlast vs)) (drop 4 (num_cols (add_total_row d))) = drop 4 (num_cols d)" for d
    using b [of d] by (simp add: drop_map [symmetric] del: drop_map)
  have e: "row_labels (add_total_row d) = row_labels d @ [''Total'']" for d
    by (simp add: add_total_row_def)
  show ?thesis
    using a [of p] b [of p] a [of "map_frame nan_to_zero q"] c [of "map_frame nan_to_zero q"]
    by (auto simp: df_table_def df_hc_def df_hc_full_def e map_frame_def dest!: in_set_dropD)
qed


theorem total_row_is_column_sum_witness:
  "(''2016'', [15000, 10000, 25000]) \<in> set (num_cols (df_table table_example))
   \<and> last [15000, 10000, 25000 :: real] = sum_list (butlast [15000, 10000, 25000])
   \<and> (''2016-Q3'', [3, 2, 5]) \<in> set (num_cols (df_hc pivot_example))
   \<and> last [3, 2, 5 :: real] = sum_list (butlast [3, 2, 5])"
  using total_row_is_column_sum [of table_example pivot_example]
  by (simp add: frame_eval pivot_example_def table_example_def)

subsection \<open>Float operations\<close>

lemma float64_not_NaN: "float64 x \<noteq> NaN"
  by (simp add: float64_def Let_def)

lemma float64_exact:
  "float64 0 = Finite 0" "float64 1 = Finite 1" "float64 100 = Finite 100"
  by (simp_all add: float_eval)

lemma float_examples:
  "growth_value 15000 10000 = Finite 50"
  "growth_value 3 1 = Finite 200"
  "is_float64 5"
  "is_float64 0"
  "np_mul (np_div (Finite 3) 4) 100 = Finite 75"
  "np_mul (np_div (Finite 1) 4) 100 = Finite 25"
  "np_mul (np_div (Finite 4) 4) 100 = Finite 100"
  "np_mul (np_div (Finite 3) 3) 100 = Finite 100"
  "np_mul (np_div (Finite 1) 3) 100 = Finite (4691249611844266 / 2 ^ 47)"
  "np_mul (np_div (Finite 0) 0) 100 = NaN"
  by (simp_all add: growth_value_def np_sub_def np_div_def np_mul_def is_float64_def float_eval)

lemma np_div_not_NaN: "a \<noteq> NaN \<Longrightarrow> b \<noteq> 0 \<Longrightarrow> np_div a b \<noteq> NaN"
  by (cases a) (simp_all add: np_div_def float64_not_NaN)

lemma np_mul_not_NaN: "v \<noteq> NaN \<Longrightarrow> c \<noteq> 0 \<Longrightarrow> np_mul v c \<noteq> NaN"
  by (cases v) (simp_all add: np_mul_def float64_not_NaN)

lemma growth_value_not_NaN: "prior \<noteq> 0 \<Longrightarrow> growth_value cur prior \<noteq> NaN"
  by (simp add: growth_value_def np_sub_def np_div_not_NaN np_mul_not_NaN float64_not_NaN)

lemma growth_value_zero_prior:
  "is_float64 cur \<Longrightarrow> cur > 0 \<Longrightarrow> growth_value cur 0 = PosInf"
  "growth_value 0 0 = NaN"
  "is_float64 cur \<Longrightarrow> cur < 0 \<Longrightarrow> growth_value cur 0 = NegInf"
  by (simp_all add: growth_value_def np_sub_def is_float64_def float64_exact np_div_def np_mul_def)

subsection \<open>The growth tables\<close>

lemma length_growth:
  "length (num_cols (growth k df)) = length (num_cols df) - k"
  by (simp add: growth_def)

lemma growth_col:
  assumes "j + k < length (num_cols df)"
  shows "num_cols (growth k df) ! j =
           (fst (num_cols df ! (j + k)),
            map2 growth_value (snd (num_cols df ! (j + k))) (snd (num_cols df ! j)))"
  using assms by (simp add: growth_def case_prod_beta add.commute)

lemma growth_cell:
  assumes "j + k < length (num_cols df)"
    and "i < length (snd (num_cols df ! (j + k)))" and "i < length (snd (num_cols df ! j))"
  shows "cell_at (growth k df) j i = growth_value (cell_at df (j + k) i) (cell_at df j i)"
  using assms by (simp add: cell_at_def growth_col)

lemma num_cols_map_frame:
  "num_cols (map_frame f df) = map (\<lambda>(n, vs). (n, map f vs)) (num_cols df)"
  by (simp add: map_frame_def)

lemma cell_map_frame:
  "j < length (num_cols df) \<Longrightarrow> i < length (snd (num_cols df ! j)) \<Longrightarrow>
     cell_at (map_frame f df) j i = f (cell_at df j i)"
  by (simp add: cell_at_def num_cols_map_frame case_prod_beta)

lemma col_name_map_frame:
  "j < length (num_cols df) \<Longrightarrow> col_name (map_frame f df) j = col_name df j"
  by (simp add: col_name_def num_cols_map_frame case_prod_beta)

lemma sum_list_positive:
  fixes vs :: "real list"
  shows "vs \<noteq> [] \<Longrightarrow> \<forall>v \<in> set vs. 0 < v \<Longrightarrow> 0 < sum_list vs"
  by (induction vs) (auto intro: add_pos_nonneg sum_list_nonneg less_imp_le)

lemma df_table_positive:
  assumes "\<forall>c \<in> set (num_cols p). snd c \<noteq> [] \<and> (\<forall>v \<in> set (snd c). 0 < v)"
    and "in_frame (df_table p) j i"
  shows "0 < cell_at (df_table p) j i"
proof -
  from assms(2) have j: "j < length (num_cols p)"
    by (simp add: in_frame_def df_table_def num_cols_add_total_row)
  obtain n vs where c: "num_cols p ! j = (n, vs)" by (cases "num_cols p ! j")
  with j have m: "(n, vs) \<in> set (num_cols p)" by (metis nth_mem)
  with assms(1) have ne: "vs \<noteq> []" and pos: "\<forall>v \<in> set vs. 0 < v" by auto
  from j c have col: "snd (num_cols (df_table p) ! j) = vs @ [sum_list vs]"
    by (simp add: df_table_def num_cols_add_total_row)
  with assms(2) have i: "i < Suc (length vs)" by (simp add: in_frame_def)
  show ?thesis
  proof (cases "i < length vs")
    case True
    with pos col show ?thesis by (simp add: cell_at_def nth_append)
  next
    case False
    with i have "i = length vs" by simp
    with col sum_list_positive [OF ne pos] show ?thesis by (simp add: cell_at_def)
  qed
qed

text \<open>
  C1, as amended. A growth value is the float result of \<open>((current - prior) / prior) * 100\<close>
  (\<open>growth_value\<close>: each of the three operations rounds to binary64), with \<open>prior\<close> the same
  row's value one column earlier in the demo script and four columns earlier in the
  superstore script.
  \<^item> The demo script handles no zero division. Its pivot holds positive values only (they
    are drawn from 10000 to 30000), and then every \<open>prior\<close>, that of the total row
    included, is positive. A zero \<open>prior\<close> would give what numpy gives: \<open>+inf\<close>, \<open>-inf\<close> or
    \<open>nan\<close> for a positive, negative or zero \<open>current\<close>.
  \<^item> The superstore script applies \<^verbatim>\<open>fillna(0)\<close>, then \<^verbatim>\<open>replace([np.inf], 100)\<close>. With a
    non-zero \<open>prior\<close> the value is the growth value, but 100 if that overflowed to \<open>+inf\<close>.
    With a zero \<open>prior\<close> it is 100 for a positive \<open>current\<close>, 0 for a zero \<open>current\<close>, and
    \<open>-inf\<close> for a negative \<open>current\<close>.
\<close>

theorem growth_values:
  "(in_frame (df_table p) (j + 1) i \<and> in_frame (df_table p) j i \<longrightarrow>
      col_name (df_table_qoq p) j = col_name (df_table p) (j + 1)
      \<and> cell_at (df_table_qoq p) j i =
            growth_value (cell_at (df_table p) (j + 1) i) (cell_at (df_table p) j i)
      \<and> ((\<forall>c \<in> set (num_cols p). snd c \<noteq> [] \<and> (\<forall>v \<in> set (snd c). 0 < v)) \<longrightarrow>
            0 < cell_at (df_table p) j i)
      \<and> (cell_at (df_table p) j i = 0 \<and> is_float64 (cell_at (df_table p) (j + 1) i) \<longrightarrow>
            cell_at (df_table_qoq p) j i =
              (if 0 < cell_at (df_table p) (j + 1) i then PosInf
               else if cell_at (df_table p) (j + 1) i < 0 then NegInf else NaN)))
   \<and> (in_frame (df_hc_full q) (j + 4) i \<and> in_frame (df_hc_full q) j i \<longrightarrow>
      col_name (df_hc_qoq q) j = col_name (df_hc_full q) (j + 4)
      \<and> cell_at (df_hc_qoq q) j i =
            replace_inf_100 (fillna0
              (growth_value (cell_at (df_hc_full q) (j + 4) i) (cell_at (df_hc_full q) j i)))
      \<and> (cell_at (df_hc_full q) j i \<noteq> 0 \<longrightarrow>
            cell_at (df_hc_qoq q) j i =
              (if growth_value (cell_at (df_hc_full q) (j + 4) i) (cell_at (df_hc_full q) j i) = PosInf
               then Finite 100
               else growth_value (cell_at (df_hc_full q) (j + 4) i) (cell_at (df_hc_full q) j i)))
      \<and> (cell_at (df_hc_full q) j i = 0 \<and> is_float64 (cell_at (df_hc_full q) (j + 4) i) \<longrightarrow>
            cell_at (df_hc_qoq q) j i =
              (if 0 < cell_at (df_hc_full q) (j + 4) i then Finite 100
               else if cell_at (df_hc_full q) (j + 4) i < 0 then NegInf else Finite 0)))"
proof (intro conjI impI)
  assume a: "in_frame (df_table p) (j + 1) i \<and> in_frame (df_table p) j i"
  then show c: "cell_at (df_table_qoq p) j i =
      growth_value (cell_at (df_table p) (j + 1) i) (cell_at (df_table p) j i)"
    by (simp add: df_table_qoq_def in_frame_def growth_cell)
  from a show "col_name (df_table_qoq p) j = col_name (df_table p) (j + 1)"
    by (simp add: df_table_qoq_def in_frame_def col_name_def growth_col)
  {
    assume "\<forall>c \<in> set (num_cols p). snd c \<noteq> [] \<and> (\<forall>v \<in> set (snd c). 0 < v)"
    with a show "0 < cell_at (df_table p) j i"
      by (simp add: df_table_positive)
  next
    assume z: "cell_at (df_table p) j i = 0 \<and> is_float64 (cell_at (df_table p) (j + 1) i)"
    show "cell_at (df_table_qoq p) j i =
        (if 0 < cell_at (df_table p) (j + 1) i then PosInf
         else if cell_at (df_table p) (j + 1) i < 0 then NegInf else NaN)"
      using z growth_value_zero_prior(1,3) [of "cell_at (df_table p) (j + 1) i"] growth_value_zero_prior(2)
      by (cases "cell_at (df_table p) (j + 1) i = 0") (auto simp: c)
  }
next
  assume a: "in_frame (df_hc_full q) (j + 4) i \<and> in_frame (df_hc_full q) j i"
  let ?g = "growth 4 (df_hc_full q)"
  let ?cur = "cell_at (df_hc_full q) (j + 4) i"
  let ?prior = "cell_at (df_hc_full q) j i"
  from a have j: "j < length (num_cols ?g)"
    by (auto simp: in_frame_def length_growth)
  from a have gc: "num_cols ?g ! j =
      (fst (num_cols (df_hc_full q) ! (j + 4)),
       map2 growth_value (snd (num_cols (df_hc_full q) ! (j + 4))) (snd (num_cols (df_hc_full q) ! j)))"
    by (simp add: in_frame_def growth_col)
  from a gc have i: "i < length (snd (num_cols ?g ! j))"
    by (simp add: in_frame_def)
  show c: "cell_at (df_hc_qoq q) j i = replace_inf_100 (fillna0 (growth_value ?cur ?prior))"
    using a j i
    by (simp add: df_hc_qoq_def cell_map_frame num_cols_map_frame case_prod_beta growth_cell in_frame_def)
  from j show "col_name (df_hc_qoq q) j = col_name (df_hc_full q) (j + 4)"
    using gc by (simp add: df_hc_qoq_def col_name_map_frame num_cols_map_frame) (simp add: col_name_def)
  {
    assume "?prior \<noteq> 0"
    then have "growth_value ?cur ?prior \<noteq> NaN" by (rule growth_value_not_NaN)
    then show "cell_at (df_hc_qoq q) j i =
        (if growth_value ?cur ?prior = PosInf then Finite 100 else growth_value ?cur ?prior)"
      by (simp add: c fillna0_def replace_inf_100_def)
  next
    assume z: "?prior = 0 \<and> is_float64 ?cur"
    show "cell_at (df_hc_qoq q) j i =
        (if 0 < ?cur then Finite 100 else if ?cur < 0 then NegInf else Finite 0)"
      using z growth_value_zero_prior(1,3) [of ?cur] growth_value_zero_prior(2)
      by (cases "?cur = 0") (auto simp: c fillna0_def replace_inf_100_def)
  }
qed

theorem growth_values_witness:
  "in_frame (df_table table_example) 1 0 \<and> in_frame (df_table table_example) 0 0
   \<and> cell_at (df_table table_example) 0 0 = 10000
   \<and> cell_at (df_table table_example) 1 0 = 15000
   \<and> num_cols table_example = [(''2015'', [10000, 20000]), (''2016'', [15000, 10000])]
   \<and> 0 < cell_at (df_table table_example) 0 0
   \<and> cell_at (df_table_qoq table_example) 0 0 = Finite 50
   \<and> in_frame (df_hc_full pivot_example) 4 0 \<and> in_frame (df_hc_full pivot_example) 0 0
   \<and> cell_at (df_hc_full pivot_example) 0 0 = 0 \<and> cell_at (df_hc_full pivot_example) 4 0 = 5
   \<and> is_float64 5
   \<and> cell_at (df_hc_qoq pivot_example) 0 0 = Finite 100
   \<and> in_frame (df_hc_full pivot_example) 5 0 \<and> in_frame (df_hc_full pivot_example) 1 0
   \<and> cell_at (df_hc_full pivot_example) 1 0 = 0 \<and> cell_at (df_hc_full pivot_example) 5 0 = 0
   \<and> is_float64 0
   \<and> cell_at (df_hc_qoq pivot_example) 1 0 = Finite 0
   \<and> in_frame (df_hc_full pivot_example) 6 0 \<and> in_frame (df_hc_full pivot_example) 2 0
   \<and> cell_at (df_hc_full pivot_example) 2 0 = 1 \<and> cell_at (df_hc_full pivot_example) 6 0 = 3
   \<and> growth_value 3 1 = Finite 200
   \<and> cell_at (df_hc_qoq pivot_example) 2 0 = Finite 200"
  using growth_values [of table_example 0 0 pivot_example]
        growth_values [of table_example 1 0 pivot_example]
        growth_values [of table_example 2 0 pivot_example]
  by (simp add: frame_eval float_examples pivot_example_def table_example_def)

text \<open>
  The claim as stated has one fixed value for every zero division. In the superstore
  script two cells of one row, both over a zero prior value, hold 100 and 0.
\<close>

theorem growth_sentinel_counterexample:
  "in_frame (df_hc_full pivot_example) 4 0 \<and> in_frame (df_hc_full pivot_example) 0 0
   \<and> cell_at (df_hc_full pivot_example) 0 0 = 0
   \<and> cell_at (df_hc_qoq pivot_example) 0 0 = Finite 100
   \<and> in_frame (df_hc_full pivot_example) 5 0 \<and> in_frame (df_hc_full pivot_example) 1 0
   \<and> cell_at (df_hc_full pivot_example) 1 0 = 0
   \<and> cell_at (df_hc_qoq pivot_example) 1 0 = Finite 0
   \<and> Finite 100 \<noteq> Finite 0"
  by (simp add: frame_eval growth_value_zero_prior float_examples pivot_example_def)

subsection \<open>The mix table\<close>



lemma num_cols_mix:
  "num_cols (df_hc_mix q) =
     map (\<lambda>(n, vs). (n, map fillna0 (map (\<lambda>v. np_mul (np_div (Finite v) (last vs)) 100) vs)))
       (drop 1 (filter (\<lambda>(n, vs). suffix (last2 (fst (last (num_cols (df_hc_full q))))) n)
                  (num_cols (df_hc_full q))))"
  by (simp add: df_hc_mix_def mix_def Let_def map_frame_def drop_map case_prod_beta comp_def)

lemma num_cols_full:
  "num_cols (df_hc_full q) =
     map (\<lambda>(n, vs). (n, vs @ [sum_list vs])) (num_cols (map_frame nan_to_zero q))"
  by (simp add: df_hc_full_def num_cols_add_total_row)

lemma mix_retained_columns:
  "map fst (num_cols (df_hc_mix q)) =
     drop 1 (filter (\<lambda>n. suffix (last2 (last (map fst (num_cols q)))) n) (map fst (num_cols q)))"
proof (cases "num_cols q = []")
  case True
  then show ?thesis by (simp add: num_cols_mix num_cols_full num_cols_map_frame)
next
  case False
  then have l: "fst (last (num_cols (df_hc_full q))) = last (map fst (num_cols q))"
    by (simp add: num_cols_full num_cols_map_frame last_map case_prod_beta)
  show ?thesis
    by (simp add: num_cols_mix l drop_map filter_map comp_def case_prod_beta)
       (simp add: num_cols_full num_cols_map_frame filter_map comp_def case_prod_beta drop_map)
qed





section \<open>Properties of \<^verbatim>\<open>_cell_border\<close>\<close>

lemma tag_facts:
  "is_fill (Elem (a_tag ''solidFill'') a c)"
  "is_fill (Elem (a_tag ''noFill'') a c)"
  "\<not> is_fill (Elem (a_tag ''lnB'') a c)"
  "map_of fill_tags (a_tag ''solidFill'') = Some SOLID"
  "map_of fill_tags (a_tag ''noFill'') = Some BACKGROUND"
  "\<not> is_fill_successor (Elem (a_tag ''lnB'') a c)"
  "\<not> is_fill_successor (Elem (a_tag ''noFill'') a c)"
  "\<not> sublist ''lnB'' (a_tag ''noFill'')"
  "\<not> sublist ''lnB'' (a_tag ''solidFill'')"
  "a_tag ''lnB'' \<noteq> a_tag ''solidFill''"
  "a_tag ''noFill'' \<noteq> a_tag ''solidFill''"
  "qn ''a:lnB'' = Inr (a_tag ''lnB'')"
  "last (split_on CHR '':'' ''a:lnB'') = ''lnB''"
  by (simp_all add: is_fill_def fill_tags_def is_fill_successor_def a_tag_def drawingml_ns_def
        qn_def nsmap_def sublist_code prefix_code)

lemma shape_fill_gives_plain_fill:
  "set_fore_color_rgb (fill_solid []) rgb = [plain_fill rgb]"
  by (simp add: set_fore_color_rgb_def fill_solid_def fill_type_def change_fill_def plain_fill_def)

lemma border_line_bottom:
  "border_line ''a:lnB'' lt bc bw = Inr (bottom_line lt bc bw)"
  by (simp add: border_line_def tag_facts bottom_line_def)

lemma apply_borders_bottom:
  "apply_borders [''a:lnB''] lt bc bw elems =
     Inr (filter (\<lambda>e. \<not> sublist ''lnB'' (xml_tag e)) elems @ [bottom_line lt bc bw])"
  by (simp add: border_line_bottom tag_facts Let_def)

text \<open>
  C10. On the cells the scripts pass to it, \<^verbatim>\<open>_cell_border(cell, ['a:lnB'])\<close> returns the cell
  with the bottom line added in front of the children of \<^verbatim>\<open>a:tcPr\<close> and nothing else changed,
  whatever the line type, colour and width: the attributes of \<^verbatim>\<open>a:tcPr\<close> and the text body
  are those of the argument, the kind of fill is the same, a solid fill is again solid with
  the same RGB colour (it was cleared by \<^verbatim>\<open>fill.background()\<close> and restored by \<^verbatim>\<open>fill.solid()\<close>
  and the colour assignment), and without the bottom line the children are the ones before
  the call.
\<close>

theorem cell_border_keeps_fill:
  assumes "tcPr cell = [] \<or> tcPr cell = [plain_fill rgb]"
  shows "cell_border cell [''a:lnB''] lt bc bw = Inr (cell\<lparr>tcPr := bottom_line lt bc bw # tcPr cell\<rparr>)
       \<and> fill_type (bottom_line lt bc bw # tcPr cell) = fill_type (tcPr cell)
       \<and> (tcPr cell = [plain_fill rgb] \<longrightarrow>
            fill_type (bottom_line lt bc bw # tcPr cell) = Some SOLID
            \<and> fore_color_rgb (bottom_line lt bc bw # tcPr cell) = Inr rgb)
       \<and> filter (\<lambda>e. xml_tag e \<noteq> a_tag ''lnB'') (bottom_line lt bc bw # tcPr cell) = tcPr cell"
  using assms
proof
  assume e: "tcPr cell = []"
  then show ?thesis
    by (simp add: cell_border_def border_line_bottom fill_type_def bottom_line_def tag_facts)
next
  assume f: "tcPr cell = [plain_fill rgb]"
  have t: "fill_type [plain_fill rgb] = Some SOLID"
    by (simp add: fill_type_def plain_fill_def tag_facts)
  have c: "fore_color_rgb [plain_fill rgb] = Inr rgb"
    by (simp add: fore_color_rgb_def plain_fill_def tag_facts)
  have b: "fill_background [plain_fill rgb] = [Elem (a_tag ''noFill'') [] []]"
    unfolding fill_background_def t
    by (simp add: change_fill_def plain_fill_def tag_facts)
  have s: "set_fore_color_rgb (fill_solid [Elem (a_tag ''noFill'') [] [], bottom_line lt bc bw]) rgb
             = [bottom_line lt bc bw, plain_fill rgb]"
    by (simp add: fill_solid_def fill_type_def change_fill_def set_fore_color_rgb_def
          bottom_line_def plain_fill_def tag_facts)
  have "cell_border cell [''a:lnB''] lt bc bw = Inr (cell\<lparr>tcPr := [bottom_line lt bc bw, plain_fill rgb]\<rparr>)"
    by (simp add: cell_border_def f t c b apply_borders_bottom tag_facts s
          del: apply_borders.simps)
  moreover have "fill_type [bottom_line lt bc bw, plain_fill rgb] = Some SOLID"
    by (simp add: fill_type_def bottom_line_def plain_fill_def tag_facts)
  moreover have "fore_color_rgb [bottom_line lt bc bw, plain_fill rgb] = Inr rgb"
    by (simp add: fore_color_rgb_def bottom_line_def plain_fill_def tag_facts)
  moreover have "filter (\<lambda>e. xml_tag e \<noteq> a_tag ''lnB'') [bottom_line lt bc bw, plain_fill rgb]
                   = [plain_fill rgb]"
    using tag_facts(10) by (simp add: bottom_line_def plain_fill_def)
  ultimately show ?thesis by (simp add: f t)
qed

theorem cell_border_keeps_fill_witness:
  "cell_border \<lparr>tcPr_attrib = [(''marR'', ''45720'')], tcPr = [plain_fill ''0070C0''], txBody = []\<rparr>
      [''a:lnB''] ''solid'' ''07182D'' ''12700''
     = Inr \<lparr>tcPr_attrib = [(''marR'', ''45720'')],
            tcPr = [bottom_line ''solid'' ''07182D'' ''12700'', plain_fill ''0070C0''], txBody = []\<rparr>
   \<and> fore_color_rgb [bottom_line ''solid'' ''07182D'' ''12700'', plain_fill ''0070C0''] = Inr ''0070C0''
   \<and> cell_border \<lparr>tcPr_attrib = [], tcPr = [], txBody = []\<rparr> [''a:lnB''] ''solid'' ''07182D'' ''12700''
     = Inr \<lparr>tcPr_attrib = [], tcPr = [bottom_line ''solid'' ''07182D'' ''12700''], txBody = []\<rparr>"
  using cell_border_keeps_fill [of "\<lparr>tcPr_attrib = [(''marR'', ''45720'')], tcPr = [plain_fill ''0070C0''], txBody = []\<rparr>"
          "''0070C0''" "''solid''" "''07182D''" "''12700''"]
        cell_border_keeps_fill [of "\<lparr>tcPr_attrib = [], tcPr = [], txBody = []\<rparr>"
          "''0070C0''" "''solid''" "''07182D''" "''12700''"]
  by simp

text \<open>
  The hypothesis on the children of \<^verbatim>\<open>a:tcPr\<close> is needed. The cleaning step removes every
  child whose tag contains the border's local name as a substring, and \<^verbatim>\<open>lnB\<close> is a substring
  of \<^verbatim>\<open>lnBlToTr\<close>: on a cell with a diagonal border, which no table of the two scripts has,
  the call for the bottom border removes the diagonal one (the second conjunct recalls the
  children before the call).
\<close>

lemma cell_border_drops_diagonal_border:
  "cell_border diagonal_cell [''a:lnB''] ''solid'' ''07182D'' ''12700'' =
     Inr (diagonal_cell
       \<lparr>tcPr :=
          [Elem (a_tag ''lnB'')
             [(''w'', ''12700''), (''cap'', ''flat''), (''cmpd'', ''sng''), (''algn'', ''ctr'')]
             [Elem (a_tag ''solidFill'') [] [Elem (a_tag ''srgbClr'') [(''val'', ''07182D'')] []],
              Elem (a_tag ''prstDash'') [(''val'', ''solid'')] []],
           Elem (a_tag ''solidFill'') [] [Elem (a_tag ''srgbClr'') [(''val'', ''FFD1D1'')] []]]\<rparr>)
   \<and> tcPr diagonal_cell =
       [Elem (a_tag ''lnBlToTr'') [(''w'', ''12700'')] [],
        Elem (a_tag ''solidFill'') [] [Elem (a_tag ''srgbClr'') [(''val'', ''FFD1D1'')] []]]"
  by code_simp

section \<open>Properties of the runs\<close>

subsection \<open>Sequences of statements\<close>



lemma run_stmts_raises:
  "l \<in> fst ` set stmts \<Longrightarrow> raises env i l \<noteq> None \<Longrightarrow> isl (run_stmts env i stmts w)"
  by (induction stmts arbitrary: w) (force split: option.splits)+

lemma run_stmts_quiet:
  "\<forall>l \<in> fst ` set stmts. raises env i l = None \<Longrightarrow>
     run_stmts env i stmts w = Inr (fold (\<lambda>(l, e). apply_effect env e) stmts w)"
  by (induction stmts arbitrary: w) auto

lemma isl_then_run:
  "isl (then_run r f) \<longleftrightarrow> isl r \<or> (\<exists>w. r = Inr w \<and> isl (f w))"
  by (cases r) (simp_all add: then_run_def)

lemma isl_then_run_always:
  "(\<And>w. isl (f w)) \<Longrightarrow> isl (then_run r f)"
  by (cases r) (simp_all add: then_run_def)

lemma not_isl_then_run:
  "\<not> isl r \<Longrightarrow> (\<And>w. \<not> isl (f w)) \<Longrightarrow> \<not> isl (then_run r f)"
  by (cases r) (simp_all add: then_run_def)

lemma not_isl_try_except:
  "(\<And>w. \<not> isl (handler w)) \<Longrightarrow> \<not> isl (try_except body handler w)"
  by (simp add: try_except_def split: sum.splits prod.splits)

lemma then_run_assoc:
  "then_run (then_run r f) g = then_run r (\<lambda>w. then_run (f w) g)"
  by (cases r) (simp_all add: then_run_def)

subsection \<open>What a part of a run leaves unchanged\<close>

lemma keeps_run_stmts:
  assumes "\<And>eff w. eff \<in> snd ` set stmts \<Longrightarrow> obs (apply_effect env eff w) = obs w"
  shows "keeps obs (run_stmts env i stmts)"
proof -
  have "obs (world_of (run_stmts env i stmts w)) = obs w" for w
    using assms
    by (induction stmts arbitrary: w) (auto simp: world_of_def split: option.splits)
  then show ?thesis by (simp add: keeps_def)
qed

lemma keeps_then_run:
  "keeps obs f \<Longrightarrow> keeps obs g \<Longrightarrow> keeps obs (\<lambda>w. then_run (f w) g)"
  unfolding keeps_def then_run_def world_of_def
  by (auto split: sum.splits prod.splits)

lemma keeps_try_except:
  "keeps obs f \<Longrightarrow> keeps obs g \<Longrightarrow> keeps obs (try_except f g)"
  unfolding keeps_def try_except_def world_of_def
  by (auto split: sum.splits prod.splits)

lemma keeps_raise: "keeps obs (\<lambda>w. Inl (e, w))"
  by (simp add: keeps_def world_of_def)

lemma keeps_skip: "keeps obs Inr"
  by (simp add: keeps_def world_of_def)

lemma keeps_if:
  "keeps obs f \<Longrightarrow> keeps obs g \<Longrightarrow> keeps obs (\<lambda>w. if c then f w else g w)"
  by (simp add: keeps_def)


lemma earlier_slides_apply_effect:
  "slide_local eff \<Longrightarrow> earlier_slides (apply_effect env eff w) = earlier_slides w"
  by (cases eff)
     (simp_all add: apply_effect_def slide_local_def on_current_slide_def earlier_slides_def)

lemma slides_apply_no_effect:
  "eff = NoEffect \<Longrightarrow> slides (apply_effect env eff w) = slides w"
  by (simp add: apply_effect_def)


lemma keeps_earlier_stmts:
  assumes "\<forall>eff \<in> snd ` set stmts. slide_local eff"
  shows "keeps earlier_slides (run_stmts env i stmts)"
proof (rule keeps_run_stmts)
  fix eff w assume "eff \<in> snd ` set stmts"
  with assms have "slide_local eff" by blast
  then show "earlier_slides (apply_effect env eff w) = earlier_slides w"
    by (rule earlier_slides_apply_effect)
qed

lemma keeps_slides_stmts:
  assumes "\<forall>eff \<in> snd ` set stmts. eff = NoEffect"
  shows "keeps slides (run_stmts env i stmts)"
proof (rule keeps_run_stmts)
  fix eff w assume "eff \<in> snd ` set stmts"
  with assms have "eff = NoEffect" by blast
  then show "slides (apply_effect env eff w) = slides w" by (rule slides_apply_no_effect)
qed

subsection \<open>The parts of the superstore script\<close>

lemma customer_card_effects:
  "\<forall>eff \<in> snd ` set (customer_card env index c). \<not> saves eff \<and> slide_local eff"
  by (simp add: customer_card_def saves_def slide_local_def)

lemma customer_ribbon_effects:
  "\<forall>eff \<in> snd ` set customer_ribbon. \<not> saves eff \<and> slide_local eff"
  by (simp add: customer_ribbon_def saves_def slide_local_def)

lemma keeps_customer_loop:
  assumes "\<And>index c. keeps obs (run_stmts env i (customer_card env index c))"
    and "keeps obs (run_stmts env i customer_ribbon)"
  shows "keeps obs (customer_loop env i index cs)"
proof (induction cs arbitrary: index)
  case Nil
  have "customer_loop env i index [] = Inr" by (rule ext) simp
  then show ?case by (simp add: keeps_skip)
next
  case (Cons c cs)
  have "customer_loop env i index (c # cs) =
      (\<lambda>w. then_run (run_stmts env i customer_ribbon w)
         (\<lambda>w. if index < 3
             then then_run (run_stmts env i (customer_card env index c) w)
                    (customer_loop env i (Suc index) cs)
             else Inl (IndexError, w)))"
    by (rule ext) simp
  then show ?case
    by (simp only:)
       (intro keeps_then_run keeps_if keeps_raise assms Cons.IH)
qed

lemma prepare_effects:
  "\<forall>eff \<in> snd ` set (pivot_frames cs). eff = NoEffect"
  "\<forall>eff \<in> snd ` set top_customers_frames. eff = NoEffect"
  "\<forall>eff \<in> snd ` set ship_mode_frames. eff = NoEffect"
  by (simp_all add: pivot_frames_def top_customers_frames_def ship_mode_frames_def)

lemma keeps_slides_prepare: "keeps slides (prepare env i cs)"
proof -
  have q: "keeps slides (query_step env i cs)"
  proof (cases "filters cs")
    case None
    then have "query_step env i cs = (\<lambda>w. Inl (KeyError, w))"
      by (intro ext) (simp add: query_step_def)
    then show ?thesis by (simp add: keeps_raise)
  next
    case (Some f)
    then have "query_step env i cs = run_stmts env i [(641, NoEffect)]"
      by (intro ext) (simp add: query_step_def)
    then show ?thesis by (simp add: keeps_slides_stmts)
  qed
  have p: "keeps slides (\<lambda>w. case pivot cs of
                    None \<Rightarrow> Inl (KeyError, w)
                  | Some p \<Rightarrow> run_stmts env i (pivot_frames cs) w)"
    by (cases "pivot cs") (simp_all add: keeps_raise keeps_slides_stmts prepare_effects)
  have "prepare env i cs =
     (\<lambda>w. case prepare_branch (stype cs) of
        PivotSlide \<Rightarrow>
          then_run (try_except (query_step env i cs) (run_stmts env i [(643, NoEffect)]) w)
            (\<lambda>w. case pivot cs of
                    None \<Rightarrow> Inl (KeyError, w)
                  | Some p \<Rightarrow> run_stmts env i (pivot_frames cs) w)
      | TopCustomers \<Rightarrow> run_stmts env i top_customers_frames w
      | ShipModeAnalysis \<Rightarrow> run_stmts env i ship_mode_frames w
      | _ \<Rightarrow> Inr w)"
    by (intro ext) (simp add: prepare_def)
  then show ?thesis
    using keeps_then_run [OF keeps_try_except [OF q keeps_slides_stmts [of "[(643, NoEffect)]" env i]] p]
      keeps_slides_stmts [OF prepare_effects(2), of env i]
      keeps_slides_stmts [OF prepare_effects(3), of env i]
    by (cases "prepare_branch (stype cs)") (simp_all add: keeps_skip [unfolded keeps_def] keeps_def)
qed


lemma render_effects:
  "\<forall>eff \<in> snd ` set (pivot_render cs). \<not> saves eff \<and> slide_local eff"
  "\<forall>eff \<in> snd ` set (top_customers_header cs). \<not> saves eff \<and> slide_local eff"
  "\<forall>eff \<in> snd ` set (ship_mode_header cs). \<not> saves eff \<and> slide_local eff"
  "\<forall>eff \<in> snd ` set ship_mode_try. \<not> saves eff \<and> slide_local eff"
  "\<forall>eff \<in> snd ` set ship_mode_except. \<not> saves eff \<and> slide_local eff"
  "\<forall>eff \<in> snd ` set (transition_render cs). \<not> saves eff \<and> slide_local eff"
  by (auto simp: pivot_render_def top_customers_header_def ship_mode_header_def ship_mode_try_def
        ship_mode_except_def transition_render_def saves_def slide_local_def split: option.splits)

lemma keeps_render:
  assumes "\<And>stmts. \<forall>eff \<in> snd ` set stmts. \<not> saves eff \<and> slide_local eff \<Longrightarrow>
             keeps obs (run_stmts env i stmts)"
  shows "keeps obs (render env i cs)"
proof -
  have "render env i cs =
     (\<lambda>w. case render_branch (stype cs) of
        PivotSlide \<Rightarrow> run_stmts env i (pivot_render cs) w
      | TopCustomers \<Rightarrow>
          then_run (run_stmts env i (top_customers_header cs) w)
            (customer_loop env i 0 (customers env))
      | ShipModeAnalysis \<Rightarrow>
          then_run (run_stmts env i (ship_mode_header cs) w)
            (try_except (run_stmts env i ship_mode_try) (run_stmts env i ship_mode_except))
      | Transition \<Rightarrow> run_stmts env i (transition_render cs) w
      | NoBranch \<Rightarrow> Inr w)"
    by (intro ext) (simp add: render_def)
  moreover have "keeps obs (customer_loop env i 0 (customers env))"
    by (intro keeps_customer_loop assms customer_card_effects customer_ribbon_effects)
  ultimately show ?thesis
    using assms [OF render_effects(1), of cs]
      keeps_then_run [OF assms [OF render_effects(2), of cs], of "customer_loop env i 0 (customers env)"]
      keeps_then_run [OF assms [OF render_effects(3), of cs]
        keeps_try_except [OF assms [OF render_effects(4)] assms [OF render_effects(5)]]]
      assms [OF render_effects(6), of cs]
    by (cases "render_branch (stype cs)") (simp_all add: keeps_skip [unfolded keeps_def] keeps_def)
qed


lemma keeps_earlier_render: "keeps earlier_slides (render env i cs)"
  by (rule keeps_render) (simp add: keeps_earlier_stmts)



subsection \<open>The file written by a run\<close>




lemmas demo_lists =
  demo_setup_def demo_slide_title_def demo_slide_text_def demo_slide_shapes_def
  demo_slide_chart_def demo_slide_table_def demo_slide_picture_def demo_slide_conclusion_def





subsection \<open>Runs that complete\<close>

lemma run_stmts_ok:
  assumes "quiet_except env X" and "list_all (\<lambda>s. fst s \<notin> X) stmts"
  shows "run_stmts env i stmts w = Inr (fold (\<lambda>(l, e). apply_effect env e) stmts w)"
proof (rule run_stmts_quiet)
  from assms(2) have "\<forall>s \<in> set stmts. fst s \<notin> X"
    by (simp add: list_all_iff)
  with assms(1) show "\<forall>l \<in> fst ` set stmts. raises env i l = None"
    by (auto simp: quiet_except_def)
qed

lemma run_stmts_completes:
  "quiet_except env X \<Longrightarrow> list_all (\<lambda>s. fst s \<notin> X) stmts \<Longrightarrow> \<not> isl (run_stmts env i stmts w)"
  by (simp add: run_stmts_ok)

lemma not_isl_Inr: "\<not> isl r \<Longrightarrow> \<exists>w. r = Inr w"
  by (cases r) simp_all

lemma demo_completes:
  assumes "quiet_except env {690, 691, 692}"
  shows "\<not> isl (demo_run env w)"
proof -
  have a: "\<not> isl (run_stmts env 0 demo_mainline_before w)" for w
    by (rule run_stmts_completes [OF assms]) (simp add: demo_mainline_before_def demo_lists)
  have b: "\<not> isl (run_stmts env 0 demo_picture_except w)" for w
    by (rule run_stmts_completes [OF assms]) (simp add: demo_picture_except_def)
  have c: "\<not> isl (run_stmts env 0 demo_mainline_after w)" for w
    by (rule run_stmts_completes [OF assms])
       (simp add: demo_mainline_after_def demo_slide_conclusion_def demo_save_def)
  show ?thesis
    unfolding demo_run_def
    by (intro not_isl_then_run not_isl_try_except a b c)
qed

lemma customer_loop_completes:
  assumes "quiet_except env {641, 769}"
  shows "index + length cs \<le> 3 \<Longrightarrow> \<not> isl (customer_loop env i index cs w)"
proof (induction cs arbitrary: index w)
  case Nil
  show ?case by simp
next
  case (Cons c cs)
  have r: "\<not> isl (run_stmts env i customer_ribbon w)" for w
    by (rule run_stmts_completes [OF assms]) (simp add: customer_ribbon_def)
  have k: "\<not> isl (run_stmts env i (customer_card env index c) w)" for w
    by (rule run_stmts_completes [OF assms]) (simp add: customer_card_def)
  from Cons.prems have lt: "index < 3" and nx: "Suc index + length cs \<le> 3" by simp_all
  have n: "\<not> isl (customer_loop env i (Suc index) cs w')" for w'
    by (rule Cons.IH [OF nx])
  have "\<not> isl (then_run (run_stmts env i (customer_card env index c) w')
                   (customer_loop env i (Suc index) cs))" for w'
    by (rule not_isl_then_run [OF k n])
  then have "\<not> isl (then_run (run_stmts env i customer_ribbon w)
     (\<lambda>w. then_run (run_stmts env i (customer_card env index c) w)
            (customer_loop env i (Suc index) cs)))"
    by (rule not_isl_then_run [OF r])
  with lt show ?case by simp
qed

lemma prepare_completes:
  assumes "quiet_except env {641, 769}"
    and "prepare_branch (stype cs) = PivotSlide \<longrightarrow> pivot cs \<noteq> None"
  shows "\<not> isl (prepare env i cs w)"
proof (cases "prepare_branch (stype cs)")
  case PivotSlide
  with assms(2) obtain p where p: "pivot cs = Some p" by auto
  have h: "\<not> isl (run_stmts env i [(643, NoEffect)] w)" for w
    by (rule run_stmts_completes [OF assms(1)]) simp
  have f: "\<not> isl (run_stmts env i (pivot_frames cs) w)" for w
    by (rule run_stmts_completes [OF assms(1)]) (auto simp: pivot_frames_def)
  show ?thesis
    unfolding prepare_def PivotSlide branch.case p option.case
    by (intro not_isl_then_run not_isl_try_except h f)
next
  case TopCustomers
  have "\<not> isl (run_stmts env i top_customers_frames w)"
    by (rule run_stmts_completes [OF assms(1)]) (simp add: top_customers_frames_def)
  then show ?thesis
    by (simp add: prepare_def TopCustomers)
next
  case ShipModeAnalysis
  have "\<not> isl (run_stmts env i ship_mode_frames w)"
    by (rule run_stmts_completes [OF assms(1)]) (simp add: ship_mode_frames_def)
  then show ?thesis
    by (simp add: prepare_def ShipModeAnalysis)
next
  case Transition
  then show ?thesis by (simp add: prepare_def)
next
  case NoBranch
  then show ?thesis by (simp add: prepare_def)
qed

lemma render_completes:
  assumes "quiet_except env {641, 769}" and "length (customers env) \<le> 3"
  shows "\<not> isl (render env i cs w)"
proof (cases "render_branch (stype cs)")
  case PivotSlide
  have "\<not> isl (run_stmts env i (pivot_render cs) w)"
    by (rule run_stmts_completes [OF assms(1)]) (auto simp: pivot_render_def)
  then show ?thesis
    by (simp add: render_def PivotSlide)
next
  case TopCustomers
  have h: "\<not> isl (run_stmts env i (top_customers_header cs) w)"
    by (rule run_stmts_completes [OF assms(1)]) (simp add: top_customers_header_def)
  have l: "\<not> isl (customer_loop env i 0 (customers env) w)" for w
    by (rule customer_loop_completes [OF assms(1)]) (simp add: assms(2))
  show ?thesis
    unfolding render_def TopCustomers branch.case
    by (intro not_isl_then_run h l)
next
  case ShipModeAnalysis
  have h: "\<not> isl (run_stmts env i (ship_mode_header cs) w)"
    by (rule run_stmts_completes [OF assms(1)]) (simp add: ship_mode_header_def)
  have x: "\<not> isl (run_stmts env i ship_mode_except w)" for w
    by (rule run_stmts_completes [OF assms(1)]) (simp add: ship_mode_except_def)
  show ?thesis
    unfolding render_def ShipModeAnalysis branch.case
    by (intro not_isl_then_run not_isl_try_except h x)
next
  case Transition
  have "\<not> isl (run_stmts env i (transition_render cs) w)"
    by (rule run_stmts_completes [OF assms(1)])
       (auto simp: transition_render_def split: option.splits)
  then show ?thesis
    by (simp add: render_def Transition)
next
  case NoBranch
  then show ?thesis by (simp add: render_def)
qed

lemma process_slide_completes:
  assumes "quiet_except env {641, 769}" and "length (customers env) \<le> 3"
    and "prepare_branch (stype cs) = PivotSlide \<longrightarrow> pivot cs \<noteq> None"
  shows "\<not> isl (process_slide env i cs w)"
proof -
  have n: "\<not> isl (run_stmts env i [(702, NewSlide)] w)" for w
    by (rule run_stmts_completes [OF assms(1)]) simp
  show ?thesis
    unfolding process_slide_def
    by (intro not_isl_then_run prepare_completes render_completes n assms)
qed

lemma slide_loop_completes:
  assumes "\<And>cs i w. cs \<in> set css \<Longrightarrow> \<not> isl (process_slide env i cs w)"
  shows "\<not> isl (slide_loop env i css w)"
  using assms
proof (induction css arbitrary: i w)
  case Nil
  show ?case by simp
next
  case (Cons cs css)
  have "\<not> isl (slide_loop env (Suc i) css w')" for w'
    by (rule Cons.IH) (simp add: Cons.prems)
  moreover have "\<not> isl (process_slide env i cs w)"
    by (rule Cons.prems) simp
  ultimately show ?case
    by (simp only: slide_loop.simps) (intro not_isl_then_run)
qed

lemma pivot_slides_have_pivot:
  "\<forall>cs \<in> set slide_order. prepare_branch (stype cs) = PivotSlide \<longrightarrow> pivot cs \<noteq> None"
  by (simp add: slide_order_def prepare_branch_def)

lemma superstore_completes:
  assumes "quiet_except env {641, 769}" and "length (customers env) \<le> 3"
  shows "\<not> isl (superstore_run env w)"
proof -
  have s: "\<not> isl (run_stmts env 0 superstore_setup w)"
    by (rule run_stmts_completes [OF assms(1)]) (simp add: superstore_setup_def)
  have v: "\<not> isl (run_stmts env 0 superstore_save w)" for w
    by (rule run_stmts_completes [OF assms(1)]) (simp add: superstore_save_def)
  have l: "\<not> isl (slide_loop env 0 slide_order w)" for w
  proof (rule slide_loop_completes)
    fix cs i w assume "cs \<in> set slide_order"
    with pivot_slides_have_pivot
    have "prepare_branch (stype cs) = PivotSlide \<longrightarrow> pivot cs \<noteq> None" by blast
    then show "\<not> isl (process_slide env i cs w)"
      by (rule process_slide_completes [OF assms])
  qed
  show ?thesis
    unfolding superstore_run_def
    by (intro not_isl_then_run s l v)
qed




subsection \<open>The slides of a run\<close>

lemma length_slides_apply_effect:
  "length (slides (apply_effect env eff w)) =
     (case eff of NewPresentation \<Rightarrow> 0 | NewSlide \<Rightarrow> Suc (length (slides w)) | _ \<Rightarrow> length (slides w))"
  by (cases eff) (simp_all add: apply_effect_def on_current_slide_def)

lemma length_slides_fold:
  "length (slides (fold (\<lambda>(l, e). apply_effect env e) stmts w)) = count_slides stmts (length (slides w))"
  by (induction stmts arbitrary: w) (auto simp: length_slides_apply_effect)

lemma fold_keeps_earlier:
  "list_all (\<lambda>s. slide_local (snd s)) stmts \<Longrightarrow>
     earlier_slides (fold (\<lambda>(l, e). apply_effect env e) stmts w) = earlier_slides w"
  by (induction stmts arbitrary: w) (auto simp: earlier_slides_apply_effect)

lemma slides_from_earlier:
  assumes "earlier_slides w' = (Suc (length xs), xs)"
  shows "slides w' = xs @ [last (slides w')]"
proof -
  from assms have "slides w' \<noteq> []" and "butlast (slides w') = xs"
    by (auto simp: earlier_slides_def)
  then show ?thesis by (metis append_butlast_last_id)
qed

lemma process_slide_appends:
  assumes "process_slide env i cs w = Inr w'"
  shows "\<exists>s. slides w' = slides w @ [s]"
proof -
  from assms obtain w1 w2 where p: "prepare env i cs w = Inr w1"
    and n: "run_stmts env i [(702, NewSlide)] w1 = Inr w2"
    and r: "render env i cs w2 = Inr w'"
    by (auto simp: process_slide_def then_run_def split: sum.splits)
  from p keeps_slides_prepare [of env i cs] have s1: "slides w1 = slides w"
    by (auto simp: keeps_def world_of_def dest!: spec [of _ w])
  from n have s2: "slides w2 = slides w1 @ [[]]"
    by (auto simp: apply_effect_def split: option.splits)
  from r keeps_earlier_render [of env i cs] have "earlier_slides w' = earlier_slides w2"
    by (auto simp: keeps_def world_of_def dest!: spec [of _ w2])
  with s1 s2 have "earlier_slides w' = (Suc (length (slides w)), slides w)"
    by (simp add: earlier_slides_def)
  from slides_from_earlier [OF this] show ?thesis by blast
qed

lemma slide_loop_appends:
  "slide_loop env i css w = Inr w' \<Longrightarrow> \<exists>ss. length ss = length css \<and> slides w' = slides w @ ss"
proof (induction css arbitrary: i w)
  case Nil
  then show ?case by simp
next
  case (Cons cs css)
  from Cons.prems obtain w1 where a: "process_slide env i cs w = Inr w1"
    and b: "slide_loop env (Suc i) css w1 = Inr w'"
    by (auto simp: then_run_def split: sum.splits)
  from process_slide_appends [OF a] obtain s where s: "slides w1 = slides w @ [s]" by blast
  from Cons.IH [OF b] obtain ss where "length ss = length css" "slides w' = slides w1 @ ss" by blast
  with s show ?case by (intro exI [of _ "s # ss"]) simp
qed

lemma slide_loop_append:
  "slide_loop env i (a @ b) w = then_run (slide_loop env i a w) (slide_loop env (i + length a) b)"
proof (induction a arbitrary: i w)
  case Nil
  show ?case by (simp add: then_run_def)
next
  case (Cons c a)
  have "slide_loop env (Suc i) (a @ b) = (\<lambda>w. then_run (slide_loop env (Suc i) a w)
      (slide_loop env (Suc i + length a) b))"
    by (rule ext) (rule Cons.IH)
  then show ?case by (simp add: then_run_assoc)
qed

subsection \<open>The picture slides\<close>

lemma quiet_line: "quiet_except env X \<Longrightarrow> l \<notin> X \<Longrightarrow> raises env i l = None"
  by (simp add: quiet_except_def)

lemma ship_mode_entry:
  "slide_order ! 5 = \<lparr>stype = ''ship_mode_analysis'', title = ''Ship Mode Comparison'',
                       sub_title = None, pivot = None, filters = None\<rparr>"
  by (simp add: slide_order_def)

lemma slide_order_split:
  "slide_order = take 5 slide_order @ slide_order ! 5 # drop 6 slide_order"
  "length (take 5 slide_order) = 5" "length (drop 6 slide_order) = 8" "length slide_order = 14"
  by (simp_all add: slide_order_def)

lemma ship_mode_process:
  assumes "quiet_except env {641, 769}"
  shows "process_slide env i (slide_order ! 5) w =
     Inr (w\<lparr>slides := slides w @
            [[Shape TextBox [''Ship Mode Comparison''],
              if raises env i 769 = None then Shape Picture []
              else Shape TextBox [''The image file was unable to be inserted into the file.'']]]\<rparr>)"
proof -
  have q: "raises env i 697 = None" "raises env i 698 = None" "raises env i 699 = None"
    "raises env i 700 = None" "raises env i 702 = None" "raises env i 765 = None"
    "raises env i 766 = None" "raises env i 771 = None" "raises env i 772 = None"
    by (simp_all add: quiet_line [OF assms])
  show ?thesis
    by (simp add: ship_mode_entry process_slide_def prepare_def prepare_branch_def render_def
          render_branch_def ship_mode_frames_def ship_mode_header_def ship_mode_try_def
          ship_mode_except_def q then_run_def try_except_def apply_effect_def
          on_current_slide_def on_last_shape_def split: option.splits)
qed

lemma superstore_picture_slide:
  assumes "quiet_except env {641, 769}" and "length (customers env) \<le> 3"
  shows "\<exists>w'. superstore_run env w = Inr w' \<and> length (slides w') = 14
           \<and> slides w' ! 5 =
               [Shape TextBox [''Ship Mode Comparison''],
                if raises env 5 769 = None then Shape Picture []
                else Shape TextBox [''The image file was unable to be inserted into the file.'']]"
proof -
  let ?s5 = "[Shape TextBox [''Ship Mode Comparison''],
              if raises env 5 769 = None then Shape Picture []
              else Shape TextBox [''The image file was unable to be inserted into the file.'']]"
  obtain w' where w': "superstore_run env w = Inr w'"
    using not_isl_Inr [OF superstore_completes [OF assms]] by blast
  then obtain w0 w1 where a: "run_stmts env 0 superstore_setup w = Inr w0"
    and b: "slide_loop env 0 slide_order w0 = Inr w1"
    and c: "run_stmts env 0 superstore_save w1 = Inr w'"
    by (auto simp: superstore_run_def then_run_def split: sum.splits)
  have "list_all (\<lambda>s. fst s \<notin> {641, 769}) superstore_setup"
    by (simp add: superstore_setup_def)
  from run_stmts_ok [OF assms(1) this] a
  have w0: "w0 = fold (\<lambda>(l, e). apply_effect env e) superstore_setup w" by simp
  have "count_slides superstore_setup n = 0" for n
    by (simp add: superstore_setup_def)
  then have "length (slides w0) = 0"
    by (simp only: w0 length_slides_fold)
  then have s0: "slides w0 = []" by simp
  from c have s': "slides w' = slides w1"
    by (auto simp: superstore_save_def apply_effect_def split: option.splits)
  from b have "then_run (slide_loop env 0 (take 5 slide_order) w0)
      (slide_loop env (0 + length (take 5 slide_order)) (slide_order ! 5 # drop 6 slide_order)) = Inr w1"
    by (simp only: slide_loop_append [symmetric] slide_order_split(1) [symmetric])
  then obtain wa wb where d: "slide_loop env 0 (take 5 slide_order) w0 = Inr wa"
    and e: "process_slide env 5 (slide_order ! 5) wa = Inr wb"
    and f: "slide_loop env 6 (drop 6 slide_order) wb = Inr w1"
    by (auto simp: slide_order_split(4) then_run_def split: sum.splits)
  from slide_loop_appends [OF d] s0 obtain ss1 where ss1: "length ss1 = 5" "slides wa = ss1"
    by (auto simp: slide_order_split(4))
  from e ship_mode_process [OF assms(1), of 5 wa] ss1 have sb: "slides wb = ss1 @ [?s5]"
    by auto
  from slide_loop_appends [OF f] obtain ss2 where ss2: "length ss2 = 8" "slides w1 = slides wb @ ss2"
    by (auto simp: slide_order_split(4))
  from s' sb ss1 ss2 have "length (slides w') = 14" "slides w' ! 5 = ?s5"
    by (simp_all add: nth_append)
  with w' show ?thesis by blast
qed

lemma demo_before_split:
  "demo_mainline_before =
     (demo_setup @ demo_slide_title @ demo_slide_text @ demo_slide_shapes @ demo_slide_chart
        @ demo_slide_table) @ demo_slide_picture"
  by (simp add: demo_mainline_before_def)

lemma demo_five_slides:
  "count_slides (demo_setup @ demo_slide_title @ demo_slide_text @ demo_slide_shapes
     @ demo_slide_chart @ demo_slide_table) n = 5"
  by (simp add: demo_setup_def demo_slide_title_def demo_slide_text_def demo_slide_shapes_def
        demo_slide_chart_def demo_slide_table_def)

lemma demo_after_earlier:
  "earlier_slides (fold (\<lambda>(l, e). apply_effect env e) demo_mainline_after w)
     = (Suc (length (slides w)), slides w)"
proof -
  have a: "demo_mainline_after = (700, NewSlide) # tl demo_mainline_after"
    by (simp add: demo_mainline_after_def demo_slide_conclusion_def)
  have b: "list_all (\<lambda>s. slide_local (snd s)) (tl demo_mainline_after)"
    by (simp add: demo_mainline_after_def demo_slide_conclusion_def demo_save_def slide_local_def)
  have "earlier_slides (fold (\<lambda>(l, e). apply_effect env e) ((700, NewSlide) # tl demo_mainline_after) w)
          = earlier_slides (apply_effect env NewSlide w)"
    by (simp add: fold_keeps_earlier [OF b])
  then show ?thesis
    by (simp add: a [symmetric] apply_effect_def earlier_slides_def)
qed

lemma demo_picture_slide:
  assumes "quiet_except env {690, 691, 692}"
  shows "\<exists>w'. demo_run env w = Inr w' \<and> length (slides w') = 7
           \<and> (raises env 0 690 \<noteq> None \<longrightarrow>
                slides w' ! 5 = [Shape TextBox [''Pictures Example''], Shape TextBox [demo_text_695]])
           \<and> (raises env 0 690 = None \<longrightarrow>
                take 2 (slides w' ! 5) = [Shape TextBox [''Pictures Example''], Shape Picture []])"
proof -
  let ?f = "\<lambda>(l, e). apply_effect env e"
  let ?hdr = "Shape TextBox [''Pictures Example'']"
  obtain w' where w': "demo_run env w = Inr w'"
    using not_isl_Inr [OF demo_completes [OF assms]] by blast
  then obtain w1 w2 where a: "run_stmts env 0 demo_mainline_before w = Inr w1"
    and b: "try_except (run_stmts env 0 demo_picture_try) (run_stmts env 0 demo_picture_except) w1 = Inr w2"
    and c: "run_stmts env 0 demo_mainline_after w2 = Inr w'"
    by (auto simp: demo_run_def then_run_def split: sum.splits)
  have "list_all (\<lambda>s. fst s \<notin> {690, 691, 692}) demo_mainline_before"
    by (simp add: demo_mainline_before_def demo_lists)
  from run_stmts_ok [OF assms this] a
  have w1: "w1 = fold ?f demo_mainline_before w" by simp
  define w0 where "w0 = fold ?f (demo_setup @ demo_slide_title @ demo_slide_text @ demo_slide_shapes
      @ demo_slide_chart @ demo_slide_table) w"
  have l0: "length (slides w0) = 5"
    by (simp only: w0_def length_slides_fold demo_five_slides)
  have "w1 = fold ?f demo_slide_picture w0"
    by (simp only: w1 w0_def demo_before_split fold_append comp_def)
  then have s1: "slides w1 = slides w0 @ [[?hdr]]"
    by (simp add: demo_slide_picture_def apply_effect_def on_current_slide_def on_last_shape_def)
  have q: "raises env 0 694 = None" "raises env 0 695 = None"
    by (simp_all add: quiet_line [OF assms])
  from b s1 obtain p where s2: "slides w2 = slides w0 @ [p]"
    and p1: "raises env 0 690 \<noteq> None \<longrightarrow> p = [?hdr, Shape TextBox [demo_text_695]]"
    and p2: "raises env 0 690 = None \<longrightarrow> take 2 p = [?hdr, Shape Picture []]"
    by (auto simp: try_except_def demo_picture_try_def demo_picture_except_def q apply_effect_def
          on_current_slide_def on_last_shape_def split: option.splits sum.splits)
  have "list_all (\<lambda>s. fst s \<notin> {690, 691, 692}) demo_mainline_after"
    by (simp add: demo_mainline_after_def demo_slide_conclusion_def demo_save_def)
  from run_stmts_ok [OF assms this] c
  have "w' = fold ?f demo_mainline_after w2" by simp
  then have "earlier_slides w' = (Suc (length (slides w2)), slides w2)"
    by (simp only: demo_after_earlier)
  from slides_from_earlier [OF this] s2 obtain c where "slides w' = slides w0 @ [p, c]"
    by auto
  with l0 have "length (slides w') = 7" "slides w' ! 5 = p"
    by (simp_all add: nth_append)
  with w' p1 p2 show ?thesis by auto
qed



text \<open>
  C5. The picture step of either script (\<^verbatim>\<open>seaborn_boxplot\<close>, line 690 of the demo script and
  line 769 of the superstore script) is the first statement of a \<^verbatim>\<open>try\<close> with a bare \<^verbatim>\<open>except\<close>.
  In a run in which no statement outside the \<^verbatim>\<open>try\<close> statements raises, the script runs to
  completion and builds all its slides. If the picture step raised, the picture slide (the
  sixth of the deck) holds its header and a text box with the placeholder text, and no
  picture; if it did not, the picture follows the header. In the demo script the \<^verbatim>\<open>try\<close>
  block also holds the caption of the picture (lines 691 and 692), which is why only the
  first two shapes of the slide are fixed there.
\<close>

theorem picture_step_fallback:
  "(quiet_except env {690, 691, 692} \<longrightarrow>
      (\<exists>w'. demo_run env w = Inr w' \<and> length (slides w') = 7
         \<and> (raises env 0 690 \<noteq> None \<longrightarrow>
              slides w' ! 5 = [Shape TextBox [''Pictures Example''], Shape TextBox [demo_text_695]])
         \<and> (raises env 0 690 = None \<longrightarrow>
              take 2 (slides w' ! 5) = [Shape TextBox [''Pictures Example''], Shape Picture []])))
   \<and> (quiet_except env {641, 769} \<and> length (customers env) \<le> 3 \<longrightarrow>
      (\<exists>w'. superstore_run env w = Inr w' \<and> length (slides w') = 14
         \<and> slides w' ! 5 =
             [Shape TextBox [''Ship Mode Comparison''],
              if raises env 5 769 = None then Shape Picture []
              else Shape TextBox [''The image file was unable to be inserted into the file.'']]))"
  using demo_picture_slide [of env w] superstore_picture_slide [of env w] by blast

lemma example_envs:
  "quiet_except (raising_at l) {l}" "quiet_except quiet_env X"
  "length (customers (raising_at l)) \<le> 3" "length (customers quiet_env) \<le> 3"
  "raises (raising_at l) i l = Some LibraryError" "raises quiet_env i l = None"
  by (simp_all add: quiet_except_def raising_at_def quiet_env_def)

lemma quiet_except_mono: "quiet_except env X \<Longrightarrow> X \<subseteq> Y \<Longrightarrow> quiet_except env Y"
  by (auto simp: quiet_except_def)

theorem picture_step_fallback_witness:
  "(\<exists>w'. demo_run (raising_at 690) empty_world = Inr w'
      \<and> slides w' ! 5 = [Shape TextBox [''Pictures Example''], Shape TextBox [demo_text_695]])
   \<and> (\<exists>w'. demo_run quiet_env empty_world = Inr w'
      \<and> take 2 (slides w' ! 5) = [Shape TextBox [''Pictures Example''], Shape Picture []])
   \<and> (\<exists>w'. superstore_run (raising_at 769) empty_world = Inr w'
      \<and> slides w' ! 5 =
          [Shape TextBox [''Ship Mode Comparison''],
           Shape TextBox [''The image file was unable to be inserted into the file.'']])
   \<and> (\<exists>w'. superstore_run quiet_env empty_world = Inr w'
      \<and> slides w' ! 5 = [Shape TextBox [''Ship Mode Comparison''], Shape Picture []])"
proof -
  have a: "quiet_except (raising_at 690) {690, 691, 692}"
    by (rule quiet_except_mono [OF example_envs(1)]) simp
  have b: "quiet_except (raising_at 769) {641, 769}"
    by (rule quiet_except_mono [OF example_envs(1)]) simp
  show ?thesis
    using picture_step_fallback [of "raising_at 690" empty_world]
      picture_step_fallback [of quiet_env empty_world]
      picture_step_fallback [of "raising_at 769" empty_world]
    by (simp add: a b example_envs) blast
qed



end
